theory Spec2Isabelle
  imports Complex_Main "HOL-Library.AList"
begin

section \<open>JavaScript number arithmetic (IEEE 754 binary64)\<close>

text \<open>
  The coordinate functions compute with JavaScript numbers, which are IEEE 754 doubles.
  A double is NaN, an infinity, the negative zero, or a finite number given as a real
  (\<open>Finite 0\<close> is the positive zero). Every arithmetic operation returns the exact result
  rounded to the nearest double, ties to the even significand.
\<close>

datatype double = NaN | PosInf | NegInf | NegZero | Finite real

fun negative :: "double \<Rightarrow> bool" where
  "negative NegInf = True"
| "negative NegZero = True"
| "negative (Finite r) = (r < 0)"
| "negative _ = False"

fun valOf :: "double \<Rightarrow> real" where
  "valOf (Finite r) = r"
| "valOf _ = 0"

definition isZero :: "double \<Rightarrow> bool" where
  "isZero d = (d = NegZero \<or> d = Finite 0)"

definition isInf :: "double \<Rightarrow> bool" where
  "isInf d = (d = PosInf \<or> d = NegInf)"

definition signedInf :: "bool \<Rightarrow> double" where
  "signedInf neg = (if neg then NegInf else PosInf)"

definition signedZero :: "bool \<Rightarrow> double" where
  "signedZero neg = (if neg then NegZero else Finite 0)"

text \<open>
  Rounding. A double has 53 significant bits and a binary exponent from -1022 to 1023
  (subnormal numbers share the exponent -1022), so the doubles around a real \<open>x\<close> whose
  binary exponent is \<open>e\<close> are the multiples of \<open>2 ^ (max e (-1022) - 52)\<close>. \<open>toDouble\<close> rounds
  \<open>x\<close> to the nearest of them; a result of magnitude \<open>2 ^ 1024\<close> is an overflow to infinity,
  and a result that is zero takes the sign of \<open>x\<close>. The first argument is the sign of the
  zero when the exact result is zero itself.
\<close>

definition pow2 :: "int \<Rightarrow> real" where
  "pow2 k = (if 0 \<le> k then 2 ^ nat k else 1 / 2 ^ nat (- k))"

definition roundEven :: "real \<Rightarrow> int" where
  "roundEven y =
     (let f = \<lfloor>y\<rfloor> in
      if y - of_int f < 1 / 2 then f
      else if 1 / 2 < y - of_int f then f + 1
      else if even f then f else f + 1)"

definition quantum :: "real \<Rightarrow> real" where
  "quantum x = pow2 (max \<lfloor>log 2 \<bar>x\<bar>\<rfloor> (- 1022) - 52)"

definition toDouble :: "bool \<Rightarrow> real \<Rightarrow> double" where
  "toDouble negZero x =
     (if x = 0 then signedZero negZero
      else
        let r = of_int (roundEven (x / quantum x)) * quantum x in
        if pow2 1024 \<le> \<bar>r\<bar> then signedInf (x < 0)
        else if r = 0 then signedZero (x < 0)
        else Finite r)"

text \<open>The reals that are doubles.\<close>

definition representable :: "real \<Rightarrow> bool" where
  "representable x = (toDouble False x = Finite x)"

text \<open>
  The operators \<open>-\<close> (unary), \<open>+\<close>, \<open>-\<close>, \<open>*\<close> and \<open>/\<close> on numbers. A sum of two zeros is the
  negative zero only when both are; the sign of a product or a quotient is the exclusive or
  of the signs of the operands.
\<close>

fun fneg :: "double \<Rightarrow> double" where
  "fneg NaN = NaN"
| "fneg PosInf = NegInf"
| "fneg NegInf = PosInf"
| "fneg NegZero = Finite 0"
| "fneg (Finite r) = (if r = 0 then NegZero else Finite (- r))"

definition fadd :: "double \<Rightarrow> double \<Rightarrow> double" where
  "fadd a b =
     (if a = NaN \<or> b = NaN then NaN
      else if a = PosInf then (if b = NegInf then NaN else PosInf)
      else if a = NegInf then (if b = PosInf then NaN else NegInf)
      else if isInf b then b
      else toDouble (a = NegZero \<and> b = NegZero) (valOf a + valOf b))"

definition fsub :: "double \<Rightarrow> double \<Rightarrow> double" where
  "fsub a b = fadd a (fneg b)"

definition fmul :: "double \<Rightarrow> double \<Rightarrow> double" where
  "fmul a b =
     (if a = NaN \<or> b = NaN then NaN
      else if (isInf a \<and> isZero b) \<or> (isZero a \<and> isInf b) then NaN
      else if isInf a \<or> isInf b then signedInf (negative a \<noteq> negative b)
      else toDouble (negative a \<noteq> negative b) (valOf a * valOf b))"

definition fdiv :: "double \<Rightarrow> double \<Rightarrow> double" where
  "fdiv a b =
     (if a = NaN \<or> b = NaN then NaN
      else if (isInf a \<and> isInf b) \<or> (isZero a \<and> isZero b) then NaN
      else if isInf a \<or> isZero b then signedInf (negative a \<noteq> negative b)
      else if isInf b then signedZero (negative a \<noteq> negative b)
      else toDouble (negative a \<noteq> negative b) (valOf a / valOf b))"

text \<open>
  \<open>Math.floor\<close>, \<open>Math.round\<close> (the nearest integer, a half rounded up; the negative zero for
  an argument from -0.5 up to the negative zero), \<open>Math.max\<close> and \<open>Math.min\<close> of two
  arguments (NaN when either is NaN; the negative zero is below the positive one).
\<close>

fun mathFloor :: "double \<Rightarrow> double" where
  "mathFloor (Finite r) = Finite (of_int \<lfloor>r\<rfloor>)"
| "mathFloor d = d"

fun mathRound :: "double \<Rightarrow> double" where
  "mathRound (Finite r) =
     (if r < 0 \<and> - (1 / 2) \<le> r then NegZero else Finite (of_int \<lfloor>r + 1 / 2\<rfloor>))"
| "mathRound d = d"

definition mathMax :: "double \<Rightarrow> double \<Rightarrow> double" where
  "mathMax a b =
     (if a = NaN \<or> b = NaN then NaN
      else if a = PosInf \<or> b = PosInf then PosInf
      else if a = NegInf then b
      else if b = NegInf then a
      else if valOf a < valOf b then b
      else if valOf b < valOf a then a
      else if a = NegZero then b else a)"

definition mathMin :: "double \<Rightarrow> double \<Rightarrow> double" where
  "mathMin a b =
     (if a = NaN \<or> b = NaN then NaN
      else if a = NegInf \<or> b = NegInf then NegInf
      else if a = PosInf then b
      else if b = PosInf then a
      else if valOf a < valOf b then a
      else if valOf b < valOf a then b
      else if a = NegZero then a else b)"

section \<open>Coordinate transform (isometricUtils)\<close>

text \<open>The object \<open>{ x, y }\<close> of two numbers that the coordinate functions return.\<close>

record vec =
  vx :: double
  vy :: double

text \<open>
  \<^verbatim>\<open>
  const isoX = Math.floor((screenX / (tileWidth / 2) + screenY / (tileHeight / 2)) / 2);
  const isoY = Math.floor((screenY / (tileHeight / 2) - screenX / (tileWidth / 2)) / 2);
  return { x: isoX, y: isoY };
  \<close>
\<close>

definition screenToIsometric :: "double \<Rightarrow> double \<Rightarrow> double \<Rightarrow> double \<Rightarrow> vec" where
  "screenToIsometric screenX screenY tileWidth tileHeight =
     (let isoX = mathFloor (fdiv (fadd (fdiv screenX (fdiv tileWidth (Finite 2)))
                                       (fdiv screenY (fdiv tileHeight (Finite 2)))) (Finite 2));
          isoY = mathFloor (fdiv (fsub (fdiv screenY (fdiv tileHeight (Finite 2)))
                                       (fdiv screenX (fdiv tileWidth (Finite 2)))) (Finite 2))
      in \<lparr>vx = isoX, vy = isoY\<rparr>)"

text \<open>
  \<^verbatim>\<open>
  const screenX = (isoX - isoY) * (tileWidth / 2);
  const screenY = (isoX + isoY) * (tileHeight / 2);
  return { x: screenX, y: screenY };
  \<close>
\<close>

definition isometricToScreen :: "double \<Rightarrow> double \<Rightarrow> double \<Rightarrow> double \<Rightarrow> vec" where
  "isometricToScreen isoX isoY tileWidth tileHeight =
     (let screenX = fmul (fsub isoX isoY) (fdiv tileWidth (Finite 2));
          screenY = fmul (fadd isoX isoY) (fdiv tileHeight (Finite 2))
      in \<lparr>vx = screenX, vy = screenY\<rparr>)"

section \<open>Placement resolver (useDragDrop)\<close>

record dims =
  width :: double
  height :: double

text \<open>
  The hook closes over \<open>gridSize\<close>, \<open>tileSize\<close>, \<open>offset\<close> and \<open>zoom\<close> of the scene; they are
  the first four arguments.
  \<^verbatim>\<open>
  const adjustedX = (x - offset.x) / zoom;
  const adjustedY = (y - offset.y) / zoom;
  const { x: gridX, y: gridY } = screenToIsometric(adjustedX, adjustedY, tileSize.width, tileSize.height);
  const boundedX = Math.max(0, Math.min(gridSize.width - 1, Math.round(gridX)));
  const boundedY = Math.max(0, Math.min(gridSize.height - 1, Math.round(gridY)));
  return { x: boundedX, y: boundedY };
  \<close>
\<close>

definition calculateGridPosition ::
  "dims \<Rightarrow> dims \<Rightarrow> vec \<Rightarrow> double \<Rightarrow> double \<Rightarrow> double \<Rightarrow> vec" where
  "calculateGridPosition gridSize tileSize offset zoom x y =
     (let adjustedX = fdiv (fsub x (vx offset)) zoom;
          adjustedY = fdiv (fsub y (vy offset)) zoom;
          g = screenToIsometric adjustedX adjustedY (width tileSize) (height tileSize);
          boundedX = mathMax (Finite 0)
                       (mathMin (fsub (width gridSize) (Finite 1)) (mathRound (vx g)));
          boundedY = mathMax (Finite 0)
                       (mathMin (fsub (height gridSize) (Finite 1)) (mathRound (vy g)))
      in \<lparr>vx = boundedX, vy = boundedY\<rparr>)"

section \<open>JavaScript values\<close>

text \<open>
  The values the scene code handles: the JSON values, \<open>undefined\<close> and the number NaN.
  An object is the list of its own properties in insertion order; a property that is not
  in the list reads as \<open>undefined\<close>. A number other than NaN is a finite double, given by
  its real value.
\<close>

type_synonym number = real

record point =
  px :: number
  py :: number

datatype jsval =
    JUndefined
  | JNull
  | JBool bool
  | JNum number
  | JNaN
  | JStr string
  | JArr "jsval list"
  | JObj "(string \<times> jsval) list"

type_synonym obj = "(string \<times> jsval) list"

text \<open>
  What a JavaScript operation throws. \<open>Error msg\<close> is \<^verbatim>\<open>new Error(msg)\<close>; \<open>ReadError\<close> is the
  error event of a \<open>FileReader\<close>. \<open>NotModelled\<close> is not a JavaScript error: it marks a
  computation whose JavaScript result this model has no value for (the rendering of an
  array or an object inside a string concatenation).
\<close>

datatype error =
    TypeError
  | SyntaxError
  | QuotaExceededError
  | ReadError
  | Error string
  | NotModelled

text \<open>The truth value of \<open>v\<close> in a condition (\<open>!v\<close> is its negation).\<close>

fun truthy :: "jsval \<Rightarrow> bool" where
  "truthy JUndefined = False"
| "truthy JNull = False"
| "truthy (JBool b) = b"
| "truthy (JNum n) = (n \<noteq> 0)"
| "truthy JNaN = False"
| "truthy (JStr s) = (s \<noteq> [])"
| "truthy (JArr xs) = True"
| "truthy (JObj ps) = True"

text \<open>
  \<open>getProp v k\<close> is the value of \<open>v.k\<close> for a receiver \<open>v\<close> that is neither \<open>null\<close> nor
  \<open>undefined\<close>, and of \<open>v?.k\<close> for every \<open>v\<close>. The property names this program reads
  (\<open>elements\<close>, \<open>metadata\<close>, \<open>gridSize\<close>, \<open>tileSize\<close>, \<open>name\<close>, \<open>id\<close>, \<open>type\<close>, \<open>position\<close>, \<open>x\<close>,
  \<open>y\<close>)
  are no properties of arrays, strings, numbers or booleans, so only an object can hold
  them. \<open>member v k\<close> is \<open>v.k\<close> for every receiver: reading a property of \<open>null\<close> or
  \<open>undefined\<close> throws a TypeError.
\<close>

fun getProp :: "jsval \<Rightarrow> string \<Rightarrow> jsval" where
  "getProp (JObj ps) k = (case map_of ps k of None \<Rightarrow> JUndefined | Some v \<Rightarrow> v)"
| "getProp _ k = JUndefined"

definition member :: "jsval \<Rightarrow> string \<Rightarrow> error + jsval" where
  "member v k = (if v = JUndefined \<or> v = JNull then Inl TypeError else Inr (getProp v k))"

text \<open>\<open>Array.isArray(v)\<close>\<close>

fun isArray :: "jsval \<Rightarrow> bool" where
  "isArray (JArr xs) = True"
| "isArray _ = False"

text \<open>
  \<open>n.toString()\<close> for an integer \<open>n\<close> (below \<open>10^21\<close> in absolute value, as every clock
  reading and every array index is): the decimal digits, after a minus sign when \<open>n\<close> is
  negative.
\<close>

definition digitChar :: "nat \<Rightarrow> char" where
  "digitChar d = ''0123456789'' ! d"

fun natToString :: "nat \<Rightarrow> string" where
  "natToString n = (if n < 10 then [digitChar n] else natToString (n div 10) @ [digitChar (n mod 10)])"

declare natToString.simps [simp del]

definition toString :: "int \<Rightarrow> string" where
  "toString i = (if i < 0 then CHR ''-'' # natToString (nat (- i)) else natToString (nat i))"

text \<open>
  The own enumerable properties that a spread \<open>...v\<close> inside an object literal copies:
  those of an object, the indexed elements of an array, the indexed characters of a
  string, and nothing for any other value. An object holds a property name once; in a
  list that repeats a name the first entry is the property, as \<open>getProp\<close> reads it.
\<close>

fun ownProps :: "jsval \<Rightarrow> obj" where
  "ownProps (JObj ps) = AList.clearjunk ps"
| "ownProps (JArr xs) = zip (map natToString [0..<length xs]) xs"
| "ownProps (JStr s) = zip (map natToString [0..<length s]) (map (\<lambda>c. JStr [c]) s)"
| "ownProps _ = []"

text \<open>
  Writing properties into an object, first to last: a property that exists is overwritten
  in place, a new one is added at the end. The literal \<open>{...a, k: v, ...b}\<close> is
  \<open>spreadInto (AList.update k v (spreadInto [] a)) b\<close>.
\<close>

definition assign :: "obj \<Rightarrow> obj \<Rightarrow> obj" where
  "assign target src = fold (\<lambda>(k, v). AList.update k v) src target"

definition spreadInto :: "obj \<Rightarrow> jsval \<Rightarrow> obj" where
  "spreadInto target v = assign target (ownProps v)"

text \<open>
  \<open>v + 1\<close>: numeric addition after the conversion of \<open>undefined\<close>, \<open>null\<close> and booleans to
  numbers, concatenation for a string. For an array or an object JavaScript concatenates
  its rendering as a string, which is not modelled: \<open>None\<close>.
\<close>

fun jsAdd1 :: "jsval \<Rightarrow> jsval option" where
  "jsAdd1 (JNum n) = Some (JNum (n + 1))"
| "jsAdd1 JNaN = Some JNaN"
| "jsAdd1 JUndefined = Some JNaN"
| "jsAdd1 JNull = Some (JNum 1)"
| "jsAdd1 (JBool b) = Some (JNum (if b then 2 else 1))"
| "jsAdd1 (JStr s) = Some (JStr (s @ ''1''))"
| "jsAdd1 (JArr xs) = None"
| "jsAdd1 (JObj ps) = None"

text \<open>
  \<open>xs[i]\<close> for an array \<open>xs\<close>: \<open>undefined\<close> (\<open>None\<close>) outside the array.
  \<open>xs.slice(0, e)\<close>: a negative \<open>e\<close> counts from the end.
\<close>

definition index :: "'a list \<Rightarrow> int \<Rightarrow> 'a option" where
  "index xs i = (if 0 \<le> i \<and> i < int (length xs) then Some (xs ! nat i) else None)"

definition slice0 :: "'a list \<Rightarrow> int \<Rightarrow> 'a list" where
  "slice0 xs e = take (nat (if e < 0 then int (length xs) + e else e)) xs"

section \<open>Scene state (SceneContext)\<close>

text \<open>
  The state cells of the provider, one field for each \<open>useState\<close>. \<open>elements\<close> is \<open>None\<close> when
  the cell holds \<open>undefined\<close>, which \<open>undo\<close> and \<open>redo\<close> store when they read the history
  outside its bounds; every other writer stores an array of objects. The selected id is a
  string or \<open>null\<close> (\<open>None\<close>).
\<close>

record scene =
  gridSize :: jsval
  tileSize :: jsval
  showGrid :: bool
  elements :: "obj list option"
  history :: "obj list list"
  historyIndex :: int
  zoom :: number
  offset :: point
  selectedElementId :: "string option"
  cursorGridPosition :: point
  sceneName :: string
  sceneModified :: bool

text \<open>The state of the first render: the initial value of every \<open>useState\<close>.\<close>

definition initialScene :: scene where
  "initialScene =
     \<lparr>gridSize = JObj [(''width'', JNum 10), (''height'', JNum 10)],
      tileSize = JObj [(''width'', JNum 64), (''height'', JNum 32)],
      showGrid = True,
      elements = Some [],
      history = [],
      historyIndex = - 1,
      zoom = 1,
      offset = \<lparr>px = 0, py = 0\<rparr>,
      selectedElementId = None,
      cursorGridPosition = \<lparr>px = 0, py = 0\<rparr>,
      sceneName = ''Untitled Scene'',
      sceneModified = False\<rparr>"

text \<open>
  The effect that initialises the history; it runs after the first render and whenever
  the length of the history has changed.
  \<^verbatim>\<open>
  useEffect(() => {
    if (history.length === 0) { setHistory([[]]); setHistoryIndex(0); }
  }, [history.length]);
  \<close>
\<close>

definition initHistory :: "scene \<Rightarrow> scene" where
  "initHistory s = (if length (history s) = 0 then s\<lparr>history := [[]], historyIndex := 0\<rparr> else s)"

definition mountedScene :: scene where
  "mountedScene = initHistory initialScene"

subsection \<open>Callbacks and the values they close over\<close>

text \<open>
  Every operation is a \<open>useCallback\<close>. A callback reads state in two ways: through the
  argument of a functional update (\<open>setHistory(prevHistory => ...)\<close>), which is the state
  at the time of the update, and through the variables of the render that created it,
  which are the state at the time of that render. \<open>useCallback(f, deps)\<close> keeps the function
  of an earlier render until a value in \<open>deps\<close> changes, so a variable that is read but not
  listed in \<open>deps\<close> keeps the value of the render that created the function.

  \<open>addToHistory\<close> reads \<open>historyIndex\<close> as such a variable (and lists it in its \<open>deps\<close>): it
  is the first argument here. The history and the index that the updates start from are
  those of the current state. An update function runs once for each update, as it does
  in a production build.
  \<^verbatim>\<open>
  const addToHistory = useCallback((newElements) => {
    setHistory(prevHistory => {
      const newHistory = prevHistory.slice(0, historyIndex + 1);
      return [...newHistory, newElements];
    });
    setHistoryIndex(prevIndex => prevIndex + 1);
  }, [historyIndex]);
  \<close>
\<close>

definition addToHistory :: "int \<Rightarrow> obj list \<Rightarrow> scene \<Rightarrow> scene" where
  "addToHistory closedIndex newElements s =
     s\<lparr>history := slice0 (history s) (closedIndex + 1) @ [newElements],
       historyIndex := historyIndex s + 1\<rparr>"

text \<open>
  \<open>addElement\<close>, \<open>updateElement\<close> and \<open>clearScene\<close> have the dependency list \<open>[]\<close>: they are
  the functions of the first render for the lifetime of the provider, and the
  \<open>addToHistory\<close> they call is the one of the first render, whose \<open>historyIndex\<close> is the
  initial \<open>-1\<close>. The \<open>...With\<close> functions are the bodies, for any \<open>historyIndex\<close> the
  \<open>addToHistory\<close> in scope closes over; the callbacks are their instances at \<open>-1\<close>.

  The clock reading \<open>Date.now()\<close> is the argument \<open>now\<close>. Spreading or mapping \<open>undefined\<close>
  throws a TypeError.
  \<^verbatim>\<open>
  const addElement = useCallback((element) => {
    setElements((prevElements) => {
      const newElements = [...prevElements, { id: Date.now().toString(), ...element }];
      addToHistory(newElements);
      setSceneModified(true);
      return newElements;
    });
  }, []);
  \<close>
\<close>

definition addElementWith :: "int \<Rightarrow> int \<Rightarrow> jsval \<Rightarrow> scene \<Rightarrow> error + scene" where
  "addElementWith closedIndex now element s =
     (case elements s of
        None \<Rightarrow> Inl TypeError
      | Some prevElements \<Rightarrow>
          let newElements = prevElements @ [spreadInto [(''id'', JStr (toString now))] element]
          in Inr ((addToHistory closedIndex newElements s)
                    \<lparr>elements := Some newElements, sceneModified := True\<rparr>))"

definition addElement :: "int \<Rightarrow> jsval \<Rightarrow> scene \<Rightarrow> error + scene" where
  "addElement = addElementWith (- 1)"

text \<open>
  \<^verbatim>\<open>
  const updateElement = useCallback((id, updates) => {
    setElements((prevElements) => {
      const newElements = prevElements.map((element) =>
        element.id === id ? { ...element, ...updates } : element);
      addToHistory(newElements);
      setSceneModified(true);
      return newElements;
    });
  }, []);
  \<close>
  The id is a string, so \<open>element.id === id\<close> holds when the property is that string.
\<close>

definition hasId :: "string \<Rightarrow> obj \<Rightarrow> bool" where
  "hasId i element = (getProp (JObj element) ''id'' = JStr i)"

definition updateElementWith :: "int \<Rightarrow> string \<Rightarrow> jsval \<Rightarrow> scene \<Rightarrow> error + scene" where
  "updateElementWith closedIndex i updates s =
     (case elements s of
        None \<Rightarrow> Inl TypeError
      | Some prevElements \<Rightarrow>
          let newElements = map (\<lambda>element.
                if hasId i element then spreadInto (spreadInto [] (JObj element)) updates
                else element) prevElements
          in Inr ((addToHistory closedIndex newElements s)
                    \<lparr>elements := Some newElements, sceneModified := True\<rparr>))"

definition updateElement :: "string \<Rightarrow> jsval \<Rightarrow> scene \<Rightarrow> error + scene" where
  "updateElement = updateElementWith (- 1)"

text \<open>
  \<open>removeElement\<close> has the dependency list \<open>[selectedElementId]\<close>: the selection it reads is
  the current one, and the \<open>addToHistory\<close> it calls is the one of the render in which the
  selection last changed. The index that one closes over is the first argument.
  \<^verbatim>\<open>
  const removeElement = useCallback((id) => {
    setElements((prevElements) => {
      const newElements = prevElements.filter((element) => element.id !== id);
      addToHistory(newElements);
      setSceneModified(true);
      return newElements;
    });
    if (selectedElementId === id) { setSelectedElementId(null); }
  }, [selectedElementId]);
  \<close>
\<close>

definition removeElement :: "int \<Rightarrow> string \<Rightarrow> scene \<Rightarrow> error + scene" where
  "removeElement closedIndex i s =
     (case elements s of
        None \<Rightarrow> Inl TypeError
      | Some prevElements \<Rightarrow>
          let newElements = filter (\<lambda>element. \<not> hasId i element) prevElements;
              s1 = (addToHistory closedIndex newElements s)
                     \<lparr>elements := Some newElements, sceneModified := True\<rparr>
          in Inr (if selectedElementId s = Some i then s1\<lparr>selectedElementId := None\<rparr> else s1))"

text \<open>
  \<^verbatim>\<open>
  const clearScene = useCallback(() => {
    addToHistory([]);
    setElements([]);
    setSelectedElementId(null);
    setSceneModified(true);
  }, []);
  \<close>
\<close>

definition clearSceneWith :: "int \<Rightarrow> scene \<Rightarrow> scene" where
  "clearSceneWith closedIndex s =
     (addToHistory closedIndex [] s)
       \<lparr>elements := Some [], selectedElementId := None, sceneModified := True\<rparr>"

definition clearScene :: "scene \<Rightarrow> scene" where
  "clearScene = clearSceneWith (- 1)"

text \<open>
  \<open>duplicateElement\<close> has the dependency list \<open>[elements]\<close>: the collection it searches is
  the current one, and the \<open>addToHistory\<close> it calls is the one of the render in which the
  collection last changed (first argument). The function has no \<open>return\<close> with a value:
  the caller receives \<open>undefined\<close> on both paths, which is the first component of the result.
  \<^verbatim>\<open>
  const duplicateElement = useCallback((id) => {
    const elementToDuplicate = elements.find(element => element.id === id);
    if (!elementToDuplicate) return;
    const newElement = {
      ...elementToDuplicate,
      id: Date.now().toString(),
      position: { x: elementToDuplicate.position.x + 1, y: elementToDuplicate.position.y + 1 }
    };
    setElements(prevElements => {
      const newElements = [...prevElements, newElement];
      addToHistory(newElements);
      setSceneModified(true);
      return newElements;
    });
    setSelectedElementId(newElement.id);
  }, [elements]);
  \<close>
\<close>

definition duplicateElement :: "int \<Rightarrow> int \<Rightarrow> string \<Rightarrow> scene \<Rightarrow> error + (jsval \<times> scene)" where
  "duplicateElement closedIndex now i s =
     (case elements s of
        None \<Rightarrow> Inl TypeError
      | Some prevElements \<Rightarrow>
          (case find (hasId i) prevElements of
             None \<Rightarrow> Inr (JUndefined, s)
           | Some elementToDuplicate \<Rightarrow>
               (case member (getProp (JObj elementToDuplicate) ''position'') ''x'' of
                  Inl e \<Rightarrow> Inl e
                | Inr posX \<Rightarrow>
                    (case (jsAdd1 posX,
                           jsAdd1 (getProp (getProp (JObj elementToDuplicate) ''position'') ''y'')) of
                       (Some newX, Some newY) \<Rightarrow>
                         let newId = toString now;
                             newElement =
                               AList.update ''position'' (JObj [(''x'', newX), (''y'', newY)])
                                 (AList.update ''id'' (JStr newId)
                                    (spreadInto [] (JObj elementToDuplicate)));
                             newElements = prevElements @ [newElement]
                         in Inr (JUndefined,
                                 (addToHistory closedIndex newElements s)
                                   \<lparr>elements := Some newElements, sceneModified := True,
                                     selectedElementId := Some newId\<rparr>)
                     | _ \<Rightarrow> Inl NotModelled))))"

text \<open>
  \<open>undo\<close> and \<open>redo\<close> have the dependency list \<open>[history, historyIndex]\<close>: both variables
  are the current state.
  \<^verbatim>\<open>
  const undo = useCallback(() => {
    if (historyIndex > 0) {
      setHistoryIndex(prevIndex => prevIndex - 1);
      setElements(history[historyIndex - 1]);
      setSceneModified(true);
    }
  }, [history, historyIndex]);
  const redo = useCallback(() => {
    if (historyIndex < history.length - 1) {
      setHistoryIndex(prevIndex => prevIndex + 1);
      setElements(history[historyIndex + 1]);
      setSceneModified(true);
    }
  }, [history, historyIndex]);
  \<close>
\<close>

definition undo :: "scene \<Rightarrow> scene" where
  "undo s =
     (if historyIndex s > 0
      then s\<lparr>historyIndex := historyIndex s - 1,
             elements := index (history s) (historyIndex s - 1),
             sceneModified := True\<rparr>
      else s)"

definition redo :: "scene \<Rightarrow> scene" where
  "redo s =
     (if historyIndex s < int (length (history s)) - 1
      then s\<lparr>historyIndex := historyIndex s + 1,
             elements := index (history s) (historyIndex s + 1),
             sceneModified := True\<rparr>
      else s)"

subsection \<open>The end of a drag (useDragDrop)\<close>

text \<open>
  What \<open>handleDragEnd\<close> reads of the event: whether there is a drop target (\<open>over\<close>), the id
  of the dragged item as a string (\<open>active.id.toString()\<close>), the data attached to it
  (\<open>active.data?.current\<close>) and the pointer coordinates of \<open>event.activatorEvent\<close>.
\<close>

record dragEvent =
  overTarget :: bool
  activeId :: string
  activeData :: jsval
  clientX :: double
  clientY :: double

text \<open>
  The position that \<open>calculateGridPosition\<close> returns becomes a value of the scene. The
  values have the finite numbers and NaN; an infinity or the negative zero has no value
  here, and a position holding one is \<open>NotModelled\<close> (\<open>calculateGridPosition\<close> returns neither
  for a grid whose width and height are numbers from 1 to \<open>2 ^ 53\<close>, as shown below).
\<close>

fun toJs :: "double \<Rightarrow> jsval option" where
  "toJs NaN = Some JNaN"
| "toJs (Finite r) = Some (JNum r)"
| "toJs d = None"

definition positionObject :: "vec \<Rightarrow> jsval option" where
  "positionObject p =
     (case (toJs (vx p), toJs (vy p)) of
        (Some jx, Some jy) \<Rightarrow> Some (JObj [(''x'', jx), (''y'', jy)])
      | _ \<Rightarrow> None)"

text \<open>
  The hook takes \<open>gridSize\<close>, \<open>tileSize\<close>, \<open>offset\<close> and \<open>zoom\<close> from the scene (the first four
  arguments, as numbers) and calls the memoised \<open>addElement\<close> and \<open>updateElement\<close>. The id
  passed to \<open>updateElement\<close> is a string in this model; for any other value that counts as
  true the comparison \<open>element.id === id\<close> is not modelled.
  \<^verbatim>\<open>
  const { active, over } = event;
  if (!over) return;
  if (active.id.toString().startsWith('palette-')) {
    const elementType = active.data?.current?.type;
    if (!elementType) return;
    const { clientX, clientY } = event.activatorEvent;
    const { x, y } = calculateGridPosition(clientX, clientY);
    addElement({ type: elementType, position: { x, y }, rotation: 0, scale: 1 });
  } else {
    const elementId = active.data?.current?.id;
    if (!elementId) return;
    const { clientX, clientY } = event.activatorEvent;
    const { x, y } = calculateGridPosition(clientX, clientY);
    updateElement(elementId, { position: { x, y } });
  }
  \<close>
\<close>

definition handleDragEnd ::
  "dims \<Rightarrow> dims \<Rightarrow> vec \<Rightarrow> double \<Rightarrow> int \<Rightarrow> dragEvent \<Rightarrow> scene \<Rightarrow> error + scene" where
  "handleDragEnd gridSize' tileSize' offset' zoom' now event s =
     (if \<not> overTarget event then Inr s
      else if take 8 (activeId event) = ''palette-'' then
        (let elementType = getProp (activeData event) ''type'' in
         if \<not> truthy elementType then Inr s
         else
           let p = calculateGridPosition gridSize' tileSize' offset' zoom'
                     (clientX event) (clientY event)
           in (case positionObject p of
                 None \<Rightarrow> Inl NotModelled
               | Some pos \<Rightarrow>
                   addElement now
                     (JObj [(''type'', elementType), (''position'', pos),
                            (''rotation'', JNum 0), (''scale'', JNum 1)]) s))
      else
        (let elementId = getProp (activeData event) ''id'' in
         if \<not> truthy elementId then Inr s
         else
           let p = calculateGridPosition gridSize' tileSize' offset' zoom'
                     (clientX event) (clientY event)
           in (case (positionObject p, elementId) of
                 (Some pos, JStr i) \<Rightarrow> updateElement i (JObj [(''position'', pos)]) s
               | _ \<Rightarrow> Inl NotModelled)))"

text \<open>A sequence of operations, stopping at the first that throws.\<close>

fun run :: "('s \<Rightarrow> error + 's) list \<Rightarrow> 's \<Rightarrow> error + 's" where
  "run [] s = Inr s"
| "run (f # fs) s = (case f s of Inl e \<Rightarrow> Inl e | Inr s' \<Rightarrow> run fs s')"

section \<open>Serialisation and the named-slot store (sceneUtils)\<close>

text \<open>
  The argument of \<open>serializeScene\<close> and the result of \<open>deserializeScene\<close>: an object with the
  properties \<open>elements\<close>, \<open>gridSize\<close> and \<open>tileSize\<close>. \<open>ss_elements\<close> is \<open>None\<close> when the property
  holds \<open>undefined\<close>.
\<close>

record sceneState =
  ss_elements :: "obj list option"
  ss_gridSize :: jsval
  ss_tileSize :: jsval

text \<open>
  \<open>new Date().toISOString()\<close> is the argument \<open>timestamp\<close>.
  \<^verbatim>\<open>
  const { elements, gridSize, tileSize } = sceneState;
  return { version: '1.0.0', timestamp: new Date().toISOString(),
           metadata: { gridSize, tileSize },
           elements: elements.map(element => ({ ...element })) };
  \<close>
\<close>

definition serializeScene :: "string \<Rightarrow> sceneState \<Rightarrow> error + jsval" where
  "serializeScene timestamp st =
     (case ss_elements st of
        None \<Rightarrow> Inl TypeError
      | Some els \<Rightarrow>
          Inr (JObj [(''version'', JStr ''1.0.0''),
                     (''timestamp'', JStr timestamp),
                     (''metadata'', JObj [(''gridSize'', ss_gridSize st), (''tileSize'', ss_tileSize st)]),
                     (''elements'', JArr (map (\<lambda>element. JObj (spreadInto [] (JObj element))) els))]))"

text \<open>
  \<^verbatim>\<open>
  if (!sceneData) return false;
  if (!Array.isArray(sceneData.elements)) return false;
  const version = sceneData.version || '1.0.0';
  return true;
  \<close>
  The constant \<open>version\<close> is not read again.
\<close>

definition validateSceneData :: "jsval \<Rightarrow> bool" where
  "validateSceneData sceneData =
     (if \<not> truthy sceneData then False
      else if \<not> isArray (getProp sceneData ''elements'') then False
      else True)"

text \<open>
  \<^verbatim>\<open>
  if (!validateSceneData(sceneData)) { throw new Error('Invalid scene data format'); }
  const { elements, metadata } = sceneData;
  return { elements: elements.map(element => ({ ...element })),
           gridSize: metadata?.gridSize, tileSize: metadata?.tileSize };
  \<close>
  \<open>elements.map\<close> of a value that is no array throws a TypeError.
\<close>

definition deserializeScene :: "jsval \<Rightarrow> error + sceneState" where
  "deserializeScene sceneData =
     (if \<not> validateSceneData sceneData then Inl (Error ''Invalid scene data format'')
      else
        let metadata = getProp sceneData ''metadata'' in
        (case getProp sceneData ''elements'' of
           JArr els \<Rightarrow>
             Inr \<lparr>ss_elements = Some (map (spreadInto []) els),
                  ss_gridSize = getProp metadata ''gridSize'',
                  ss_tileSize = getProp metadata ''tileSize''\<rparr>
         | _ \<Rightarrow> Inl TypeError))"

subsection \<open>localStorage\<close>

text \<open>
  The store maps a key to a string. A stored string is represented by what \<open>JSON.parse\<close>
  makes of it: the empty string (which a condition treats as false), a text that
  \<open>JSON.parse\<close> rejects with a SyntaxError, or a text that parses to a value.
  \<open>JSON.stringify(v)\<close> is a text that parses to \<open>v\<close> again; this is exact for the values
  written here unless they hold \<open>undefined\<close> or NaN, which JSON drops or replaces by
  \<open>null\<close>.
\<close>

datatype stored = EmptyText | Malformed | Json jsval

type_synonym storage = "string \<rightharpoonup> stored"

definition stringify :: "jsval \<Rightarrow> stored" where
  "stringify v = Json v"

text \<open>\<open>JSON.parse(localStorage.getItem(key) || '[]')\<close>\<close>

definition parseItemOrEmpty :: "storage \<Rightarrow> string \<Rightarrow> error + jsval" where
  "parseItemOrEmpty ls key =
     (case ls key of
        None \<Rightarrow> Inr (JArr [])
      | Some EmptyText \<Rightarrow> Inr (JArr [])
      | Some Malformed \<Rightarrow> Inl SyntaxError
      | Some (Json v) \<Rightarrow> Inr v)"

text \<open>
  \<open>localStorage.setItem(key, value)\<close> throws when the browser refuses the write (the quota
  is exceeded). Whether it accepts a write is the argument \<open>fits\<close>.
\<close>

definition setItem :: "(storage \<Rightarrow> string \<Rightarrow> stored \<Rightarrow> bool) \<Rightarrow> string \<Rightarrow> stored \<Rightarrow> storage \<Rightarrow> error + storage" where
  "setItem fits key v ls = (if fits ls key v then Inr (ls(key \<mapsto> v)) else Inl QuotaExceededError)"

definition removeItem :: "string \<Rightarrow> storage \<Rightarrow> storage" where
  "removeItem key ls = ls(key := None)"

definition indexKey :: string where
  "indexKey = ''isometric-scenes-index''"

definition sceneKey :: "string \<Rightarrow> string" where
  "sceneKey name = ''isometric-scene-'' @ name"

text \<open>
  \<open>scenesIndex.findIndex(item => item.name === name)\<close>, with \<open>None\<close> for \<open>-1\<close>: the items
  are visited in order up to the first match, and an item that is \<open>null\<close> throws.
\<close>

fun findIndexByName :: "string \<Rightarrow> jsval list \<Rightarrow> error + nat option" where
  "findIndexByName name [] = Inr None"
| "findIndexByName name (item # items) =
     (case member item ''name'' of
        Inl e \<Rightarrow> Inl e
      | Inr v \<Rightarrow>
          if v = JStr name then Inr (Some 0)
          else (case findIndexByName name items of
                  Inl e \<Rightarrow> Inl e
                | Inr None \<Rightarrow> Inr None
                | Inr (Some k) \<Rightarrow> Inr (Some (Suc k))))"

text \<open>\<open>scenesIndex.filter(item => item.name !== name)\<close>: every item is visited.\<close>

fun filterOutName :: "string \<Rightarrow> jsval list \<Rightarrow> error + jsval list" where
  "filterOutName name [] = Inr []"
| "filterOutName name (item # items) =
     (case member item ''name'' of
        Inl e \<Rightarrow> Inl e
      | Inr v \<Rightarrow>
          (case filterOutName name items of
             Inl e \<Rightarrow> Inl e
           | Inr rest \<Rightarrow> Inr (if v \<noteq> JStr name then item # rest else rest)))"

text \<open>
  Every exception inside the \<open>try\<close> block is caught and makes the result \<open>false\<close>; the
  writes made before it stay. The two timestamps are arguments. \<open>findIndex\<close> is no method
  of a value that is not an array: calling it throws a TypeError.
  \<^verbatim>\<open>
  try {
    const serializedScene = serializeScene(sceneState);
    const scenesIndex = JSON.parse(localStorage.getItem('isometric-scenes-index') || '[]');
    const existingIndex = scenesIndex.findIndex(item => item.name === name);
    const sceneInfo = { name, timestamp: new Date().toISOString(), preview: null };
    if (existingIndex >= 0) { scenesIndex[existingIndex] = sceneInfo; }
    else { scenesIndex.push(sceneInfo); }
    localStorage.setItem('isometric-scenes-index', JSON.stringify(scenesIndex));
    localStorage.setItem(`isometric-scene-${name}`, JSON.stringify(serializedScene));
    return true;
  } catch (error) { return false; }
  \<close>
\<close>

definition saveSceneToLocalStorage ::
  "(storage \<Rightarrow> string \<Rightarrow> stored \<Rightarrow> bool) \<Rightarrow> string \<Rightarrow> string \<Rightarrow> string \<Rightarrow> sceneState \<Rightarrow> storage
     \<Rightarrow> bool \<times> storage" where
  "saveSceneToLocalStorage fits timestamp1 timestamp2 name st ls =
     (case serializeScene timestamp1 st of
        Inl e \<Rightarrow> (False, ls)
      | Inr serializedScene \<Rightarrow>
          (case parseItemOrEmpty ls indexKey of
             Inr (JArr scenesIndex) \<Rightarrow>
               (case findIndexByName name scenesIndex of
                  Inl e \<Rightarrow> (False, ls)
                | Inr existingIndex \<Rightarrow>
                    let sceneInfo = JObj [(''name'', JStr name), (''timestamp'', JStr timestamp2),
                                          (''preview'', JNull)];
                        scenesIndex' = (case existingIndex of
                                          Some k \<Rightarrow> scenesIndex[k := sceneInfo]
                                        | None \<Rightarrow> scenesIndex @ [sceneInfo])
                    in (case setItem fits indexKey (stringify (JArr scenesIndex')) ls of
                          Inl e \<Rightarrow> (False, ls)
                        | Inr ls1 \<Rightarrow>
                            (case setItem fits (sceneKey name) (stringify serializedScene) ls1 of
                               Inl e \<Rightarrow> (False, ls1)
                             | Inr ls2 \<Rightarrow> (True, ls2))))
           | _ \<Rightarrow> (False, ls)))"

text \<open>
  \<^verbatim>\<open>
  try {
    const sceneData = localStorage.getItem(`isometric-scene-${name}`);
    if (!sceneData) return null;
    return deserializeScene(JSON.parse(sceneData));
  } catch (error) { return null; }
  \<close>
\<close>

definition loadSceneFromLocalStorage :: "storage \<Rightarrow> string \<Rightarrow> sceneState option" where
  "loadSceneFromLocalStorage ls name =
     (case ls (sceneKey name) of
        None \<Rightarrow> None
      | Some EmptyText \<Rightarrow> None
      | Some Malformed \<Rightarrow> None
      | Some (Json sceneData) \<Rightarrow>
          (case deserializeScene sceneData of Inl e \<Rightarrow> None | Inr st \<Rightarrow> Some st))"

text \<open>
  \<^verbatim>\<open>
  try {
    const scenesIndex = JSON.parse(localStorage.getItem('isometric-scenes-index') || '[]');
    const updatedIndex = scenesIndex.filter(item => item.name !== name);
    localStorage.setItem('isometric-scenes-index', JSON.stringify(updatedIndex));
    localStorage.removeItem(`isometric-scene-${name}`);
    return true;
  } catch (error) { return false; }
  \<close>
\<close>

definition deleteScene ::
  "(storage \<Rightarrow> string \<Rightarrow> stored \<Rightarrow> bool) \<Rightarrow> string \<Rightarrow> storage \<Rightarrow> bool \<times> storage" where
  "deleteScene fits name ls =
     (case parseItemOrEmpty ls indexKey of
        Inr (JArr scenesIndex) \<Rightarrow>
          (case filterOutName name scenesIndex of
             Inl e \<Rightarrow> (False, ls)
           | Inr updatedIndex \<Rightarrow>
               (case setItem fits indexKey (stringify (JArr updatedIndex)) ls of
                  Inl e \<Rightarrow> (False, ls)
                | Inr ls1 \<Rightarrow> (True, removeItem (sceneKey name) ls1)))
      | _ \<Rightarrow> (False, ls))"

text \<open>
  A file is its name and its content as \<open>readAsText\<close> delivers it: \<open>None\<close> when the reader
  reports an error. The promise of \<open>importSceneFromJSON\<close> is rejected (\<open>Inl\<close>) by a reader
  error and by every exception of \<open>JSON.parse\<close> and \<open>deserializeScene\<close>.
\<close>

record jsfile =
  fileName :: string
  fileText :: "stored option"

definition importSceneFromJSON :: "jsfile \<Rightarrow> error + sceneState" where
  "importSceneFromJSON f =
     (case fileText f of
        None \<Rightarrow> Inl ReadError
      | Some EmptyText \<Rightarrow> Inl SyntaxError
      | Some Malformed \<Rightarrow> Inl SyntaxError
      | Some (Json sceneData) \<Rightarrow> deserializeScene sceneData)"

subsection \<open>Loading and importing into the scene\<close>

text \<open>
  \<open>loadScene\<close> and \<open>importScene\<close> read no state variable: they only call setters.
  \<^verbatim>\<open>
  const sceneState = loadSceneFromLocalStorage(name);
  if (sceneState) {
    const { elements: loadedElements, gridSize: loadedGridSize, tileSize: loadedTileSize } = sceneState;
    setElements(loadedElements || []);
    if (loadedGridSize) setGridSize(loadedGridSize);
    if (loadedTileSize) setTileSize(loadedTileSize);
    setHistory([loadedElements || []]);
    setHistoryIndex(0);
    setSceneName(name);
    setSceneModified(false);
    return true;
  }
  return false;
  \<close>
\<close>

definition orEmpty :: "obj list option \<Rightarrow> obj list" where
  "orEmpty els = (case els of None \<Rightarrow> [] | Some xs \<Rightarrow> xs)"

definition installScene :: "sceneState \<Rightarrow> scene \<Rightarrow> scene" where
  "installScene st s =
     s\<lparr>elements := Some (orEmpty (ss_elements st)),
       gridSize := (if truthy (ss_gridSize st) then ss_gridSize st else gridSize s),
       tileSize := (if truthy (ss_tileSize st) then ss_tileSize st else tileSize s),
       history := [orEmpty (ss_elements st)],
       historyIndex := 0\<rparr>"

definition loadScene :: "storage \<Rightarrow> string \<Rightarrow> scene \<Rightarrow> bool \<times> scene" where
  "loadScene ls name s =
     (case loadSceneFromLocalStorage ls name of
        None \<Rightarrow> (False, s)
      | Some st \<Rightarrow> (True, (installScene st s)\<lparr>sceneName := name, sceneModified := False\<rparr>))"

text \<open>
  \<open>file.name.replace(/\.[^/.]+$/, '')\<close> removes the last dot and what follows it, when at
  least one character follows and none of them is a slash.
\<close>

definition stripExtension :: "string \<Rightarrow> string" where
  "stripExtension n =
     (let ext = rev (takeWhile (\<lambda>c. c \<noteq> CHR ''.'') (rev n))
      in if length ext < length n \<and> ext \<noteq> [] \<and> CHR ''/'' \<notin> set ext
         then take (length n - length ext - 1) n
         else n)"

text \<open>
  \<^verbatim>\<open>
  try {
    const sceneState = await importSceneFromJSON(file);
    if (sceneState) {
      ... the same seven setter calls as in loadScene, up to setHistoryIndex(0) ...
      setSceneName(file.name.replace(/\.[^/.]+$/, '') || 'Imported Scene');
      setSceneModified(true);
      return true;
    }
  } catch (error) { console.error('Error importing scene:', error); }
  return false;
  \<close>
\<close>

definition importScene :: "jsfile \<Rightarrow> scene \<Rightarrow> bool \<times> scene" where
  "importScene f s =
     (case importSceneFromJSON f of
        Inl e \<Rightarrow> (False, s)
      | Inr st \<Rightarrow>
          (True, (installScene st s)
                   \<lparr>sceneName := (let n = stripExtension (fileName f)
                                  in if n = [] then ''Imported Scene'' else n),
                     sceneModified := True\<rparr>))"

section \<open>Auxiliary notions for the proofs\<close>

text \<open>The number that a string of decimal digits denotes.\<close>

definition digitVal :: "char \<Rightarrow> nat" where
  "digitVal c = of_char c - 48"

definition fromDigits :: "string \<Rightarrow> nat" where
  "fromDigits s = foldl (\<lambda>a c. 10 * a + digitVal c) 0 s"

text \<open>The array behind a value, empty when the value is no array.\<close>

fun arrayItems :: "jsval \<Rightarrow> jsval list" where
  "arrayItems (JArr xs) = xs"
| "arrayItems _ = []"

text \<open>
  A position object whose \<open>x\<close> and \<open>y\<close> are numbers inside a grid of the given width and
  height, and one whose \<open>x\<close> and \<open>y\<close> are each NaN or a number inside the grid.
\<close>

definition inGrid :: "number \<Rightarrow> number \<Rightarrow> jsval \<Rightarrow> bool" where
  "inGrid w h pos =
     (case (getProp pos ''x'', getProp pos ''y'') of
        (JNum gx, JNum gy) \<Rightarrow> 0 \<le> gx \<and> gx \<le> w - 1 \<and> 0 \<le> gy \<and> gy \<le> h - 1
      | _ \<Rightarrow> False)"

fun nanOrWithin :: "number \<Rightarrow> jsval \<Rightarrow> bool" where
  "nanOrWithin u JNaN = True"
| "nanOrWithin u (JNum r) = (0 \<le> r \<and> r \<le> u)"
| "nanOrWithin u v = False"

definition nanOrInGrid :: "number \<Rightarrow> number \<Rightarrow> jsval \<Rightarrow> bool" where
  "nanOrInGrid w h pos =
     (nanOrWithin (w - 1) (getProp pos ''x'') \<and> nanOrWithin (h - 1) (getProp pos ''y''))"

text \<open>A number that is neither NaN nor an infinity.\<close>

fun finiteNumber :: "double \<Rightarrow> bool" where
  "finiteNumber NaN = False"
| "finiteNumber PosInf = False"
| "finiteNumber NegInf = False"
| "finiteNumber d = True"

text \<open>
  The numbers that the literals \<open>10.1\<close> and \<open>5.05\<close> denote: the doubles nearest to 101/10
  and to 101/20.
\<close>

definition tenPointOne :: double where
  "tenPointOne = toDouble False (101 / 10)"

definition fivePointOhFive :: double where
  "fivePointOhFive = toDouble False (101 / 20)"

text \<open>Concrete scenes and stores on which the statements are exercised.\<close>

definition treeAt :: "string \<Rightarrow> number \<Rightarrow> number \<Rightarrow> obj" where
  "treeAt i gx gy =
     [(''id'', JStr i), (''type'', JStr ''tree''),
      (''position'', JObj [(''x'', JNum gx), (''y'', JNum gy)]),
      (''rotation'', JNum 0), (''scale'', JNum 1)]"

definition paletteTree :: jsval where
  "paletteTree =
     JObj [(''type'', JStr ''tree''),
           (''position'', JObj [(''x'', JNum 5), (''y'', JNum 5)]),
           (''rotation'', JNum 0), (''scale'', JNum 1)]"

definition savedBlob :: jsval where
  "savedBlob =
     JObj [(''version'', JStr ''1.0.0''),
           (''timestamp'', JStr ''2024-01-01T00:00:00.000Z''),
           (''metadata'', JObj [(''gridSize'', JObj [(''width'', JNum 12), (''height'', JNum 8)])]),
           (''elements'', JArr [JObj (treeAt ''41'' 2 3)])]"

definition exampleStorage :: storage where
  "exampleStorage =
     [indexKey \<mapsto> Json (JArr [JObj [(''name'', JStr ''A''), (''timestamp'', JStr ''t''),
                                      (''preview'', JNull)]]),
      sceneKey ''A'' \<mapsto> Json savedBlob]"

definition editedScene :: scene where
  "editedScene =
     mountedScene\<lparr>elements := Some [treeAt ''7'' 1 1],
                   history := [[], [treeAt ''7'' 0 0], [treeAt ''7'' 1 1]],
                   historyIndex := 2,
                   sceneModified := True\<rparr>"

definition exampleGrid :: dims where
  "exampleGrid = \<lparr>width = Finite 10, height = Finite 10\<rparr>"

definition loadedGrid :: dims where
  "loadedGrid = \<lparr>width = Finite 12, height = Finite 8\<rparr>"

definition exampleTile :: dims where
  "exampleTile = \<lparr>width = Finite 64, height = Finite 32\<rparr>"

definition zeroTile :: dims where
  "zeroTile = \<lparr>width = Finite 0, height = Finite 0\<rparr>"

definition examplePan :: vec where
  "examplePan = \<lparr>vx = Finite 100, vy = Finite 50\<rparr>"

definition noPan :: vec where
  "noPan = \<lparr>vx = Finite 0, vy = Finite 0\<rparr>"

definition paletteDrop :: dragEvent where
  "paletteDrop =
     \<lparr>overTarget = True, activeId = ''palette-tree'',
      activeData = JObj [(''type'', JStr ''tree'')],
      clientX = Finite 5220, clientY = Finite 3058\<rparr>"

definition elementDrop :: dragEvent where
  "elementDrop =
     \<lparr>overTarget = True, activeId = ''41'',
      activeData = JObj [(''id'', JStr ''41''), (''type'', JStr ''tree'')],
      clientX = Finite (- 668), clientY = Finite 114\<rparr>"

definition cornerDrop :: dragEvent where
  "cornerDrop =
     \<lparr>overTarget = True, activeId = ''palette-tree'',
      activeData = JObj [(''type'', JStr ''tree'')],
      clientX = Finite 5, clientY = Finite 5\<rparr>"

definition loadedScene :: scene where
  "loadedScene = snd (loadScene exampleStorage ''A'' mountedScene)"


text \<open>
  The agreement of the named-slot store with its index: whether a blob is stored under a
  name, and whether the index (as \<open>getSavedScenes\<close> reads it) has an entry with that name.
\<close>

definition hasBlob :: "storage \<Rightarrow> string \<Rightarrow> bool" where
  "hasBlob ls n = (ls (sceneKey n) \<noteq> None)"

definition namedBy :: "string \<Rightarrow> jsval \<Rightarrow> bool" where
  "namedBy n item = (getProp item ''name'' = JStr n)"

definition inIndex :: "storage \<Rightarrow> string \<Rightarrow> bool" where
  "inIndex ls n =
     (case parseItemOrEmpty ls indexKey of
        Inr (JArr items) \<Rightarrow> list_ex (namedBy n) items
      | _ \<Rightarrow> False)"

text \<open>A browser that accepts every write, and one that has room for the index only.\<close>

definition acceptAll :: "storage \<Rightarrow> string \<Rightarrow> stored \<Rightarrow> bool" where
  "acceptAll ls key v = True"

definition refuseBlobs :: "storage \<Rightarrow> string \<Rightarrow> stored \<Rightarrow> bool" where
  "refuseBlobs ls key v = (key = indexKey)"

definition emptyStorage :: storage where
  "emptyStorage = Map.empty"

definition mountedState :: sceneState where
  "mountedState =
     \<lparr>ss_elements = elements mountedScene, ss_gridSize = gridSize mountedScene,
      ss_tileSize = tileSize mountedScene\<rparr>"

section \<open>Facts about the number arithmetic\<close>

subsection \<open>Rounding\<close>

lemma pow2_powr: "pow2 k = 2 powr (real_of_int k)"
  by (simp add: pow2_def powr_real_of_int field_simps)

lemma pow2_pos: "0 < pow2 k"
  by (simp add: pow2_powr)

lemma pow2_add: "pow2 (a + b) = pow2 a * pow2 b"
  by (simp add: pow2_powr powr_add)

lemma pow2_less_iff: "pow2 a < pow2 b \<longleftrightarrow> a < b"
  by (simp add: pow2_powr)

lemma pow2_le_iff: "pow2 a \<le> pow2 b \<longleftrightarrow> a \<le> b"
  by (simp add: pow2_powr)

lemma pow2_nonneg_int: "0 \<le> k \<Longrightarrow> pow2 k = of_int (2 ^ nat k)"
  by (simp add: pow2_def)

lemma floor_log2: "0 < x \<Longrightarrow> pow2 e \<le> x \<Longrightarrow> x < pow2 (e + 1) \<Longrightarrow> \<lfloor>log 2 x\<rfloor> = e"
  using floor_log_eq_powr_iff [of x 2 e] by (simp add: pow2_powr)

lemma floor_log2_bounds:
  assumes "0 < x"
  shows "pow2 \<lfloor>log 2 x\<rfloor> \<le> x \<and> x < pow2 (\<lfloor>log 2 x\<rfloor> + 1)"
  using floor_log_eq_powr_iff [of x 2 "\<lfloor>log 2 x\<rfloor>"] assms by (simp add: pow2_powr)

lemma quantum_eval:
  assumes "x \<noteq> 0" and "pow2 e \<le> \<bar>x\<bar>" and "\<bar>x\<bar> < pow2 (e + 1)"
  shows "quantum x = pow2 (max e (- 1022) - 52)"
  using floor_log2 [of "\<bar>x\<bar>" e] assms by (simp add: quantum_def)

lemma roundEven_of_int: "roundEven (of_int m) = m"
  by (simp add: roundEven_def)

lemma toDouble_exact:
  assumes "n \<noteq> 0" and "\<bar>n\<bar> < 2 ^ 53" and "- 1074 \<le> k" and "k \<le> 971"
  shows "toDouble z (of_int n * pow2 k) = Finite (of_int n * pow2 k)"
proof -
  let ?x = "of_int n * pow2 k :: real"
  have x0: "?x \<noteq> 0" using assms(1) pow2_pos [of k] by simp
  have ax: "\<bar>?x\<bar> = of_int \<bar>n\<bar> * pow2 k" using pow2_pos [of k] by (simp add: abs_mult)
  define e where "e = \<lfloor>log 2 \<bar>?x\<bar>\<rfloor>"
  have b: "pow2 e \<le> \<bar>?x\<bar>" "\<bar>?x\<bar> < pow2 (e + 1)"
    using floor_log2_bounds [of "\<bar>?x\<bar>"] x0 by (simp_all add: e_def)
  have "real_of_int \<bar>n\<bar> < pow2 53"
  proof -
    have "real_of_int \<bar>n\<bar> < real_of_int (2 ^ 53)" using assms(2) by (simp only: of_int_less_iff)
    then show ?thesis by (simp add: pow2_def)
  qed
  then have "\<bar>?x\<bar> < pow2 53 * pow2 k" unfolding ax using pow2_pos [of k] by simp
  then have "\<bar>?x\<bar> < pow2 (53 + k)" by (simp add: pow2_add)
  with b(1) have "pow2 e < pow2 (53 + k)" by simp
  then have ek: "e < 53 + k" by (simp add: pow2_less_iff)
  define j where "j = max e (- 1022) - 52"
  have jk: "j \<le> k" using ek assms(3) by (simp add: j_def)
  have q: "quantum ?x = pow2 j" by (simp add: quantum_def e_def j_def)
  have "pow2 k = pow2 (k - j) * pow2 j" using pow2_add [of "k - j" j] by simp
  also have "pow2 (k - j) = of_int (2 ^ nat (k - j))" using jk by (simp add: pow2_nonneg_int)
  finally have kk: "pow2 k = of_int (2 ^ nat (k - j)) * pow2 j" .
  have div: "?x / pow2 j = of_int (n * 2 ^ nat (k - j))"
    using pow2_pos [of j] by (simp add: kk)
  have r: "of_int (roundEven (?x / quantum ?x)) * quantum ?x = ?x"
    unfolding q div roundEven_of_int using pow2_pos [of j] by (simp add: kk)
  have "\<bar>?x\<bar> < pow2 53 * pow2 971"
  proof -
    have "pow2 k \<le> pow2 971" using assms(4) by (simp add: pow2_le_iff)
    then have "of_int \<bar>n\<bar> * pow2 k \<le> of_int \<bar>n\<bar> * pow2 971"
      by (simp add: mult_left_mono)
    also have "\<dots> < pow2 53 * pow2 971"
      using \<open>real_of_int \<bar>n\<bar> < pow2 53\<close> pow2_pos [of 971] by simp
    finally show ?thesis unfolding ax .
  qed
  also have "\<dots> = pow2 1024" using pow2_add [of 53 971] by simp
  finally have lt: "\<bar>?x\<bar> < pow2 1024" .
  show ?thesis
    unfolding toDouble_def Let_def r using x0 lt by simp
qed

lemma toDouble_int:
  assumes "\<bar>n\<bar> < 2 ^ 53"
  shows "toDouble z (of_int n) = (if n = 0 then signedZero z else Finite (of_int n))"
proof (cases "n = 0")
  case True
  then show ?thesis by (simp add: toDouble_def)
next
  case False
  then show ?thesis using toDouble_exact [of n 0 z] assms by (simp add: pow2_def)
qed

lemma toDouble_eval:
  assumes "x \<noteq> 0" and "pow2 e \<le> \<bar>x\<bar>" and "\<bar>x\<bar> < pow2 (e + 1)"
  shows "toDouble z x =
     (let q = pow2 (max e (- 1022) - 52); r = of_int (roundEven (x / q)) * q in
        if pow2 1024 \<le> \<bar>r\<bar> then signedInf (x < 0)
        else if r = 0 then signedZero (x < 0)
        else Finite r)"
  using assms by (simp add: toDouble_def quantum_eval [OF assms] Let_def)

lemma toDouble_numeral [simp]:
  "(numeral w :: int) < 2 ^ 53 \<Longrightarrow> toDouble z (numeral w) = Finite (numeral w)"
  using toDouble_int [of "numeral w" z] by simp

lemma toDouble_neg_numeral [simp]:
  "(numeral w :: int) < 2 ^ 53 \<Longrightarrow> toDouble z (- numeral w) = Finite (- numeral w)"
  using toDouble_int [of "- numeral w" z] by simp

lemma toDouble_0 [simp]: "toDouble z 0 = signedZero z"
  by (simp add: toDouble_def)

lemma toDouble_1 [simp]: "toDouble z 1 = Finite 1"
  using toDouble_int [of 1 z] by simp

lemmas double_ops =
  fadd_def fsub_def fmul_def fdiv_def mathMax_def mathMin_def isInf_def isZero_def
  signedInf_def signedZero_def

lemma toDouble_of_int:
  "\<bar>n\<bar> < 2 ^ 53 \<Longrightarrow> toDouble False (of_int n) = Finite (of_int n)"
  by (simp add: toDouble_int signedZero_def)

lemma fadd_int:
  assumes "\<bar>m + n\<bar> < 2 ^ 53"
  shows "fadd (Finite (of_int m)) (Finite (of_int n)) = Finite (of_int (m + n))"
  using toDouble_of_int [OF assms] by (simp add: fadd_def isInf_def)

lemma fsub_int:
  assumes "\<bar>m - n\<bar> < 2 ^ 53"
  shows "fsub (Finite (of_int m)) (Finite (of_int n)) = Finite (of_int (m - n))"
proof (cases "n = 0")
  case True
  then show ?thesis using toDouble_of_int [of m] assms by (simp add: fsub_def fadd_def isInf_def)
next
  case False
  then show ?thesis using toDouble_of_int [OF assms] by (simp add: fsub_def fadd_def isInf_def)
qed

lemma fdiv_cancel:
  assumes "\<bar>n\<bar> < 2 ^ 53" and "0 < c"
  shows "fdiv (Finite (of_int n * c)) (Finite c) = Finite (of_int n)"
proof (cases "n = 0")
  case True
  then show ?thesis using assms(2) by (simp add: fdiv_def isInf_def isZero_def signedZero_def)
next
  case False
  then have "toDouble z (of_int n) = Finite (of_int n)" for z
    using toDouble_int [of n z] assms(1) by simp
  then show ?thesis using assms(2) False by (simp add: fdiv_def isInf_def isZero_def)
qed

lemma fdiv_two_int:
  assumes "\<bar>n\<bar> < 2 ^ 52"
  shows "fdiv (Finite (of_int (2 * n))) (Finite 2) = Finite (of_int n)"
proof -
  have "\<bar>n\<bar> < 2 ^ 53" using assms by simp
  from fdiv_cancel [OF this, of 2] show ?thesis by (simp add: mult.commute)
qed

lemma toDouble_sign:
  assumes "x \<noteq> 0"
  shows "toDouble z x = toDouble False x"
  using assms by (simp add: toDouble_def)

lemma toDouble_not_NaN: "toDouble z x \<noteq> NaN"
  by (simp add: toDouble_def Let_def signedInf_def signedZero_def)

lemma representable_toDouble:
  assumes "representable x"
  shows "toDouble z x = (if x = 0 then signedZero z else Finite x)"
proof (cases "x = 0")
  case True
  then show ?thesis by (simp add: toDouble_def)
next
  case False
  then show ?thesis using assms toDouble_sign [OF False, of z] by (simp add: representable_def)
qed

lemma representable_dyadic:
  assumes "\<bar>n\<bar> < 2 ^ 53" and "- 1074 \<le> k" and "k \<le> 971"
  shows "representable (of_int n * pow2 k)"
proof (cases "n = 0")
  case True
  then show ?thesis by (simp add: representable_def toDouble_def signedZero_def)
next
  case False
  from toDouble_exact [OF False assms] show ?thesis by (simp add: representable_def)
qed

lemma representable_form:
  assumes "representable w" and "0 < w"
  shows "\<exists>m. w = of_int m * pow2 (max \<lfloor>log 2 w\<rfloor> (- 1022) - 52)"
proof -
  let ?q = "quantum w"
  let ?r = "of_int (roundEven (w / ?q)) * ?q"
  have "toDouble False w = Finite w" using assms(1) by (simp add: representable_def)
  then have "?r = w"
    using assms(2) by (auto simp: toDouble_def Let_def signedInf_def signedZero_def split: if_splits)
  then show ?thesis using assms(2) by (auto simp: quantum_def intro: exI [of _ "roundEven (w / ?q)"])
qed

lemma fsub_one_exact:
  assumes "representable w" and "1 \<le> w" and "w \<le> 2 ^ 53"
  shows "fsub (Finite w) (Finite 1) = Finite (w - 1)"
proof -
  have w0: "0 < w" using assms(2) by simp
  define e where "e = \<lfloor>log 2 w\<rfloor>"
  have b: "pow2 e \<le> w" "w < pow2 (e + 1)"
    using floor_log2_bounds [OF w0] by (simp_all add: e_def)
  have "pow2 0 < pow2 (e + 1)" using b(2) assms(2) by (simp add: pow2_def)
  then have e0: "0 \<le> e" by (simp add: pow2_less_iff)
  have "pow2 e \<le> pow2 53" using b(1) assms(3) by (simp add: pow2_def)
  then have e53: "e \<le> 53" by (simp add: pow2_le_iff)
  from representable_form [OF assms(1) w0] e0
  obtain m where m: "w = of_int m * pow2 (e - 52)" by (auto simp: e_def)
  have sub: "fsub (Finite w) (Finite 1) = toDouble False (w - 1)"
    by (simp add: fsub_def fadd_def isInf_def)
  show ?thesis
  proof (cases "e = 53")
    case True
    then have "w = 2 ^ 53" using b(1) assms(3) by (simp add: pow2_def)
    then have "w - 1 = of_int (2 ^ 53 - 1)" by simp
    moreover have "toDouble False (of_int (2 ^ 53 - 1)) = Finite (of_int (2 ^ 53 - 1))"
      by (rule toDouble_of_int) simp
    ultimately show ?thesis unfolding sub by simp
  next
    case False
    then have e52: "e \<le> 52" using e53 by simp
    define c :: int where "c = 2 ^ nat (52 - e)"
    have one: "(1::real) = of_int c * pow2 (e - 52)"
      using pow2_add [of "52 - e" "e - 52"] e52 by (simp add: c_def pow2_nonneg_int pow2_def)
    have w1: "w - 1 = of_int (m - c) * pow2 (e - 52)"
      by (simp add: m algebra_simps) (metis one)
    have "pow2 (e + 1) = pow2 53 * pow2 (e - 52)"
      using pow2_add [of 53 "e - 52"] by (simp add: add.commute)
    then have "of_int m * pow2 (e - 52) < pow2 53 * pow2 (e - 52)"
      using b(2) m by (simp only:)
    then have "real_of_int m < pow2 53" using pow2_pos [of "e - 52"] by simp
    then have m53: "m < 2 ^ 53" by (simp add: pow2_def)
    have "0 \<le> of_int (m - c) * pow2 (e - 52)" using w1 assms(2) by simp
    then have "0 \<le> real_of_int (m - c)" using pow2_pos [of "e - 52"] by (simp add: zero_le_mult_iff)
    then have mc0: "0 \<le> m - c" by simp
    have cpos: "0 < c" by (simp add: c_def)
    have mc: "\<bar>m - c\<bar> < 2 ^ 53" using mc0 m53 cpos by simp
    show ?thesis
    proof (cases "m - c = 0")
      case True
      then show ?thesis unfolding sub w1 by (simp add: signedZero_def)
    next
      case False
      from toDouble_exact [OF False mc, of "e - 52" False] e0 e52
      show ?thesis unfolding sub w1 by simp
    qed
  qed
qed

subsection \<open>The clamp\<close>

lemma clamp_cases:
  assumes "0 \<le> u"
  shows "(mathMax (Finite 0) (mathMin (Finite u) (mathRound g)) = NaN) = (g = NaN)
       \<and> (g \<noteq> NaN \<longrightarrow> (\<exists>r. mathMax (Finite 0) (mathMin (Finite u) (mathRound g)) = Finite r
                                \<and> 0 \<le> r \<and> r \<le> u))"
  using assms by (cases g) (auto simp: mathMax_def mathMin_def)

lemma clamp_finite:
  assumes "0 \<le> u" and "g \<noteq> NaN"
  shows "\<exists>r. mathMax (Finite 0) (mathMin (Finite u) (mathRound g)) = Finite r \<and> 0 \<le> r \<and> r \<le> u"
  using clamp_cases [OF assms(1), of g] assms(2) by simp

section \<open>Decimal rendering, object literals and single operations\<close>

lemma digitVal_digitChar: "d < 10 \<Longrightarrow> digitVal (digitChar d) = d"
proof -
  assume "d < 10"
  then have "d \<in> {0,1,2,3,4,5,6,7,8,9}" by auto
  then show ?thesis by (auto simp: digitVal_def digitChar_def)
qed

lemma fromDigits_natToString: "fromDigits (natToString n) = n"
proof (induction n rule: natToString.induct)
  case (1 n)
  show ?case
  proof (cases "n < 10")
    case True
    then show ?thesis by (simp add: natToString.simps[of n] fromDigits_def digitVal_digitChar)
  next
    case False
    then have "fromDigits (natToString (n div 10)) = n div 10" using 1 by simp
    then show ?thesis using False
      by (simp add: natToString.simps[of n] fromDigits_def digitVal_digitChar)
  qed
qed

lemma natToString_inj: "natToString a = natToString b \<Longrightarrow> a = b"
  by (metis fromDigits_natToString)

lemma natToString_hd: "natToString n \<noteq> [] \<and> hd (natToString n) \<noteq> CHR ''-''"
proof (induction n rule: natToString.induct)
  case (1 n)
  show ?case
  proof (cases "n < 10")
    case True
    then have "n \<in> {0,1,2,3,4,5,6,7,8,9}" by auto
    then show ?thesis by (auto simp: natToString.simps[of n] digitChar_def)
  next
    case False
    then show ?thesis using 1 by (simp add: natToString.simps[of n])
  qed
qed

lemma toString_inj: "toString a = toString b \<Longrightarrow> a = b"
proof -
  assume h: "toString a = toString b"
  have neg: "\<And>i. i < 0 \<Longrightarrow> hd (toString i) = CHR ''-''" by (simp add: toString_def)
  have pos: "\<And>i. \<not> i < 0 \<Longrightarrow> hd (toString i) \<noteq> CHR ''-''" using natToString_hd by (simp add: toString_def)
  have same: "(a < 0) = (b < 0)" using h neg pos by metis
  show ?thesis
  proof (cases "a < 0")
    case True
    then have "natToString (nat (- a)) = natToString (nat (- b))" using h same by (simp add: toString_def)
    then have "nat (- a) = nat (- b)" by (rule natToString_inj)
    then show ?thesis using True same by simp
  next
    case False
    then have "natToString (nat a) = natToString (nat b)" using h same by (simp add: toString_def)
    then have "nat a = nat b" by (rule natToString_inj)
    then show ?thesis using False same by simp
  qed
qed

lemma map_of_rev_distinct: "distinct (map fst xs) \<Longrightarrow> map_of (rev xs) = map_of xs"
proof (induction xs)
  case Nil
  then show ?case by simp
next
  case (Cons p xs)
  obtain k v where p: "p = (k, v)" by (cases p)
  from Cons have ih: "map_of (rev xs) = map_of xs" and nk: "k \<notin> fst ` set xs" by (auto simp: p)
  have "map_of xs k = None" using nk by (simp add: map_of_eq_None_iff)
  then have "[k \<mapsto> v] ++ map_of xs = (map_of xs)(k \<mapsto> v)"
    by (auto simp: map_add_def fun_eq_iff split: option.splits)
  then show ?case by (simp add: p ih)
qed

lemma map_of_assign: "map_of (assign t src) = map_of t ++ map_of (rev src)"
  unfolding assign_def
proof (induction src arbitrary: t)
  case Nil
  then show ?case by simp
next
  case (Cons p src)
  obtain k v where p: "p = (k, v)" by (cases p)
  have "map_of (fold (\<lambda>(k, v). AList.update k v) src (AList.update k v t))
          = map_of (AList.update k v t) ++ map_of (rev src)"
    by (rule Cons.IH)
  also have "\<dots> = (map_of t ++ [k \<mapsto> v]) ++ map_of (rev src)"
    by (simp only: AList.update_conv' map_add_upd map_add_empty)
  finally show ?case by (simp add: p)
qed

lemma map_of_spreadInto_obj: "map_of (spreadInto t (JObj ps)) = map_of t ++ map_of ps"
  by (simp add: spreadInto_def map_of_assign map_of_rev_distinct AList.map_of_clearjunk)

lemma getProp_copy: "getProp (JObj (spreadInto [] (JObj ps))) k = getProp (JObj ps) k"
  by (simp add: map_of_spreadInto_obj)

lemma map_of_spreadInto_absent:
  "map_of (ownProps v) k = None \<Longrightarrow> map_of (spreadInto t v) k = map_of t k"
proof -
  assume "map_of (ownProps v) k = None"
  then have "k \<notin> fst ` set (ownProps v)" by (simp add: map_of_eq_None_iff)
  then have "map_of (rev (ownProps v)) k = None" by (simp add: map_of_eq_None_iff)
  then show ?thesis by (simp add: spreadInto_def map_of_assign map_add_def)
qed

lemma addElementWith_id:
  assumes "elements s = Some els" and "map_of (ownProps element) ''id'' = None"
  shows "\<exists>e. addElementWith h now element s =
            Inr ((addToHistory h (els @ [e]) s)\<lparr>elements := Some (els @ [e]), sceneModified := True\<rparr>)
          \<and> getProp (JObj e) ''id'' = JStr (toString now)"
proof -
  let ?e = "spreadInto [(''id'', JStr (toString now))] element"
  have "addElementWith h now element s =
            Inr ((addToHistory h (els @ [?e]) s)\<lparr>elements := Some (els @ [?e]), sceneModified := True\<rparr>)"
    using assms by (simp add: addElementWith_def Let_def)
  moreover have "getProp (JObj ?e) ''id'' = JStr (toString now)"
    using assms by (simp add: map_of_spreadInto_absent)
  ultimately show ?thesis by blast
qed

lemma not_hasId_map:
  "list_all (\<lambda>e. \<not> hasId i e) els \<Longrightarrow> map (\<lambda>e. if hasId i e then f e else e) els = els"
  by (induction els) auto

lemma not_hasId_filter:
  "list_all (\<lambda>e. \<not> hasId i e) els \<Longrightarrow> filter (\<lambda>e. \<not> hasId i e) els = els"
  by (induction els) auto


lemma duplicateElement_found:
  assumes "elements s = Some els" and "find (hasId i) els = Some el"
    and "getProp (JObj el) ''position'' = JObj pos"
    and "getProp (JObj pos) ''x'' = JNum x0" and "getProp (JObj pos) ''y'' = JNum y0"
  shows "\<exists>clone. duplicateElement h now i s =
            Inr (JUndefined, (addToHistory h (els @ [clone]) s)
                   \<lparr>elements := Some (els @ [clone]), sceneModified := True,
                     selectedElementId := Some (toString now)\<rparr>)
          \<and> getProp (JObj clone) ''id'' = JStr (toString now)
          \<and> getProp (JObj clone) ''position'' = JObj [(''x'', JNum (x0 + 1)), (''y'', JNum (y0 + 1))]
          \<and> (\<forall>k. k \<noteq> ''id'' \<and> k \<noteq> ''position'' \<longrightarrow> getProp (JObj clone) k = getProp (JObj el) k)"
proof -
  let ?clone = "AList.update ''position'' (JObj [(''x'', JNum (x0 + 1)), (''y'', JNum (y0 + 1))])
                  (AList.update ''id'' (JStr (toString now)) (spreadInto [] (JObj el)))"
  have "duplicateElement h now i s =
            Inr (JUndefined, (addToHistory h (els @ [?clone]) s)
                   \<lparr>elements := Some (els @ [?clone]), sceneModified := True,
                     selectedElementId := Some (toString now)\<rparr>)"
    using assms by (simp add: duplicateElement_def member_def Let_def)
  moreover have "getProp (JObj ?clone) ''id'' = JStr (toString now)"
    by (simp add: AList.update_conv')
  moreover have "getProp (JObj ?clone) ''position'' = JObj [(''x'', JNum (x0 + 1)), (''y'', JNum (y0 + 1))]"
    by (simp add: AList.update_conv')
  moreover have "\<forall>k. k \<noteq> ''id'' \<and> k \<noteq> ''position'' \<longrightarrow> getProp (JObj ?clone) k = getProp (JObj el) k"
    by (simp add: AList.update_conv' map_of_spreadInto_obj)
  ultimately show ?thesis by blast
qed


section \<open>The concrete scenes\<close>

lemmas load_eval =
  loadScene_def loadSceneFromLocalStorage_def importScene_def importSceneFromJSON_def
  exampleStorage_def sceneKey_def indexKey_def savedBlob_def deserializeScene_def
  validateSceneData_def Let_def installScene_def orEmpty_def spreadInto_def assign_def
  treeAt_def editedScene_def stripExtension_def

lemmas scene_eval =
  addElement_def addElementWith_def updateElement_def updateElementWith_def removeElement_def
  clearScene_def clearSceneWith_def duplicateElement_def addToHistory_def undo_def redo_def
  mountedScene_def initHistory_def initialScene_def slice0_def index_def hasId_def member_def
  spreadInto_def assign_def toString_def natToString.simps digitChar_def
  paletteTree_def treeAt_def Let_def

lemma loadedScene_eq:
  "loadedScene =
     mountedScene\<lparr>elements := Some [treeAt ''41'' 2 3],
                   gridSize := JObj [(''width'', JNum 12), (''height'', JNum 8)],
                   history := [[treeAt ''41'' 2 3]], historyIndex := 0,
                   sceneName := ''A'', sceneModified := False\<rparr>"
  by (simp add: loadedScene_def load_eval mountedScene_def initHistory_def initialScene_def)


section \<open>Properties of the coordinate transform and the placement resolver\<close>

subsection \<open>The round trip\<close>

lemma fdiv_half:
  assumes "0 < t" and "representable (t / 2)"
  shows "fdiv (Finite t) (Finite 2) = Finite (t / 2)"
  using assms by (simp add: fdiv_def isInf_def isZero_def representable_def)

lemma fmul_exact:
  assumes "0 < c" and "representable (of_int m * c)"
  shows "fmul (Finite (of_int m)) (Finite c) = Finite (of_int m * c)"
proof (cases "m = 0")
  case True
  then show ?thesis using assms(1) by (simp add: fmul_def isInf_def isZero_def signedZero_def)
next
  case False
  then have "of_int m * c \<noteq> 0" using assms(1) by simp
  then have "toDouble z (of_int m * c) = Finite (of_int m * c)" for z
    using representable_toDouble [OF assms(2), of z] by simp
  then show ?thesis by (simp add: fmul_def isInf_def isZero_def)
qed

lemma isometricToScreen_exact:
  assumes "\<bar>gx\<bar> \<le> 2 ^ 51" and "\<bar>gy\<bar> \<le> 2 ^ 51" and "0 < w" and "0 < h"
    and "representable (w / 2)" and "representable (h / 2)"
    and "representable (of_int (gx - gy) * (w / 2))"
    and "representable (of_int (gx + gy) * (h / 2))"
  shows "isometricToScreen (Finite (of_int gx)) (Finite (of_int gy)) (Finite w) (Finite h)
           = \<lparr>vx = Finite (of_int (gx - gy) * (w / 2)), vy = Finite (of_int (gx + gy) * (h / 2))\<rparr>"
proof -
  have d: "fsub (Finite (of_int gx)) (Finite (of_int gy)) = Finite (of_int (gx - gy))"
    using fsub_int [of gx gy] assms(1,2) by simp
  have s: "fadd (Finite (of_int gx)) (Finite (of_int gy)) = Finite (of_int (gx + gy))"
    using fadd_int [of gx gy] assms(1,2) by simp
  have hw: "0 < w / 2" and hh: "0 < h / 2" using assms(3,4) by simp_all
  show ?thesis
    unfolding isometricToScreen_def Let_def d s
      fdiv_half [OF assms(3) assms(5)] fdiv_half [OF assms(4) assms(6)]
      fmul_exact [OF hw assms(7)] fmul_exact [OF hh assms(8)]
    by (rule refl)
qed

lemma screenToIsometric_exact:
  assumes "\<bar>gx\<bar> \<le> 2 ^ 51" and "\<bar>gy\<bar> \<le> 2 ^ 51" and "0 < w" and "0 < h"
    and "fdiv (Finite w) (Finite 2) = Finite (w / 2)"
    and "fdiv (Finite h) (Finite 2) = Finite (h / 2)"
  shows "screenToIsometric (Finite (of_int (gx - gy) * (w / 2))) (Finite (of_int (gx + gy) * (h / 2)))
           (Finite w) (Finite h) = \<lparr>vx = Finite (of_int gx), vy = Finite (of_int gy)\<rparr>"
proof -
  have s: "\<bar>gx - gy\<bar> < 2 ^ 53" "\<bar>gx + gy\<bar> < 2 ^ 53" using assms(1,2) by simp_all
  have a: "fdiv (Finite (of_int (gx - gy) * (w / 2))) (Finite (w / 2)) = Finite (of_int (gx - gy))"
    using fdiv_cancel [OF s(1), of "w / 2"] assms(3) by simp
  have b: "fdiv (Finite (of_int (gx + gy) * (h / 2))) (Finite (h / 2)) = Finite (of_int (gx + gy))"
    using fdiv_cancel [OF s(2), of "h / 2"] assms(4) by simp
  have sum: "fadd (Finite (of_int (gx - gy))) (Finite (of_int (gx + gy))) = Finite (of_int (2 * gx))"
    using fadd_int [of "gx - gy" "gx + gy"] assms(1) by simp
  have diff: "fsub (Finite (of_int (gx + gy))) (Finite (of_int (gx - gy))) = Finite (of_int (2 * gy))"
    using fsub_int [of "gx + gy" "gx - gy"] assms(2) by simp
  have hx: "fdiv (Finite (of_int (2 * gx))) (Finite 2) = Finite (of_int gx)"
    using fdiv_two_int [of gx] assms(1) by simp
  have hy: "fdiv (Finite (of_int (2 * gy))) (Finite 2) = Finite (of_int gy)"
    using fdiv_two_int [of gy] assms(2) by simp
  show ?thesis
    unfolding screenToIsometric_def Let_def assms(5) assms(6) a b sum diff hx hy by simp
qed

lemma round_trip_exact:
  assumes "\<bar>gx\<bar> \<le> 2 ^ 51" and "\<bar>gy\<bar> \<le> 2 ^ 51" and "0 < w" and "0 < h"
    and "representable (w / 2)" and "representable (h / 2)"
    and "representable (of_int (gx - gy) * (w / 2))"
    and "representable (of_int (gx + gy) * (h / 2))"
  shows "(let p = isometricToScreen (Finite (of_int gx)) (Finite (of_int gy)) (Finite w) (Finite h)
          in screenToIsometric (vx p) (vy p) (Finite w) (Finite h))
           = \<lparr>vx = Finite (of_int gx), vy = Finite (of_int gy)\<rparr>"
  unfolding isometricToScreen_exact [OF assms] Let_def vec.simps
  by (rule screenToIsometric_exact [OF assms(1-4) fdiv_half [OF assms(3) assms(5)]
        fdiv_half [OF assms(4) assms(6)]])

lemma representable_half_tile:
  assumes "1 \<le> t" and "t \<le> 2 ^ 20"
  shows "representable (of_int t / 2)"
proof -
  have "\<bar>t\<bar> < 2 ^ 53" using assms by simp
  from representable_dyadic [OF this, of "- 1"] show ?thesis by (simp add: pow2_def)
qed

lemma representable_int_half_tile:
  assumes "\<bar>m\<bar> \<le> 2 ^ 31" and "1 \<le> t" and "t \<le> 2 ^ 20"
  shows "representable (of_int m * (of_int t / 2))"
proof -
  have "\<bar>m * t\<bar> \<le> 2 ^ 31 * 2 ^ 20"
    unfolding abs_mult using assms by (intro mult_mono) simp_all
  then have "\<bar>m * t\<bar> < 2 ^ 53" by simp
  from representable_dyadic [OF this, of "- 1"] show ?thesis by (simp add: pow2_def)
qed

lemma round_trip_int_tiles:
  assumes "\<bar>gx\<bar> \<le> 2 ^ 30" and "\<bar>gy\<bar> \<le> 2 ^ 30"
    and "1 \<le> tw" and "tw \<le> 2 ^ 20" and "1 \<le> th" and "th \<le> 2 ^ 20"
  shows "(let p = isometricToScreen (Finite (of_int gx)) (Finite (of_int gy))
                    (Finite (of_int tw)) (Finite (of_int th))
          in screenToIsometric (vx p) (vy p) (Finite (of_int tw)) (Finite (of_int th)))
           = \<lparr>vx = Finite (of_int gx), vy = Finite (of_int gy)\<rparr>"
proof -
  have b: "\<bar>gx\<bar> \<le> 2 ^ 51" "\<bar>gy\<bar> \<le> 2 ^ 51" using assms(1,2) by simp_all
  have p: "0 < real_of_int tw" "0 < real_of_int th" using assms(3,5) by simp_all
  have m: "\<bar>gx - gy\<bar> \<le> 2 ^ 31" "\<bar>gx + gy\<bar> \<le> 2 ^ 31" using assms(1,2) by simp_all
  show ?thesis
    by (rule round_trip_exact [OF b p representable_half_tile [OF assms(3,4)]
          representable_half_tile [OF assms(5,6)]
          representable_int_half_tile [OF m(1) assms(3,4)]
          representable_int_half_tile [OF m(2) assms(5,6)]])
qed

text \<open>The literals \<open>10.1\<close> and \<open>5.05\<close>, and each rounding of the round trip of (1, 8).\<close>

lemma tenPointOne_eq: "tenPointOne = Finite (5685794529555251 / 562949953421312)"
  unfolding tenPointOne_def
  by (subst toDouble_eval [where e = 3]) (simp_all add: pow2_def roundEven_def Let_def)

lemma fivePointOhFive_eq: "fivePointOhFive = Finite (5685794529555251 / 1125899906842624)"
  unfolding fivePointOhFive_def
  by (subst toDouble_eval [where e = 2]) (simp_all add: pow2_def roundEven_def Let_def)

lemma half_tenPointOne:
  "toDouble z (5685794529555251 / 1125899906842624) = Finite (5685794529555251 / 1125899906842624)"
  using toDouble_exact [of 5685794529555251 "- 50" z] by (simp add: pow2_def)

lemma half_fivePointOhFive:
  "toDouble z (5685794529555251 / 2251799813685248) = Finite (5685794529555251 / 2251799813685248)"
  using toDouble_exact [of 5685794529555251 "- 51" z] by (simp add: pow2_def)

lemma rounded_screenX:
  "toDouble z (- (39800561706886757 / 1125899906842624))
     = Finite (- (4975070213360845 / 140737488355328))"
  by (subst toDouble_eval [where e = 5]) (simp_all add: pow2_def roundEven_def Let_def)

lemma rounded_screenY:
  "toDouble z (51172150765997259 / 2251799813685248)
     = Finite (6396518845749657 / 281474976710656)"
  by (subst toDouble_eval [where e = 4]) (simp_all add: pow2_def roundEven_def Let_def)

lemma rounded_quotientX:
  "toDouble z (- (39800561706886760 / 5685794529555251))
     = Finite (- (7881299347898369 / 1125899906842624))"
  by (subst toDouble_eval [where e = 2]) (simp_all add: pow2_def roundEven_def Let_def)

lemma rounded_quotientY: "toDouble z (51172150765997256 / 5685794529555251) = Finite 9"
  by (subst toDouble_eval [where e = 3]) (simp_all add: pow2_def roundEven_def Let_def)

lemma rounded_sum:
  "toDouble z (2251799813685247 / 1125899906842624) = Finite (2251799813685247 / 1125899906842624)"
  using toDouble_exact [of 2251799813685247 "- 50" z] by (simp add: pow2_def)

lemma rounded_half_sum:
  "toDouble z (2251799813685247 / 2251799813685248) = Finite (2251799813685247 / 2251799813685248)"
  using toDouble_exact [of 2251799813685247 "- 51" z] by (simp add: pow2_def)

lemma rounded_difference: "toDouble z (18014398509481985 / 1125899906842624) = Finite 16"
  by (subst toDouble_eval [where e = 4]) (simp_all add: pow2_def roundEven_def Let_def)

lemma isometricToScreen_tenPointOne:
  "isometricToScreen (Finite 1) (Finite 8) tenPointOne fivePointOhFive
     = \<lparr>vx = Finite (- (4975070213360845 / 140737488355328)),
        vy = Finite (6396518845749657 / 281474976710656)\<rparr>"
  by (simp add: isometricToScreen_def double_ops tenPointOne_eq fivePointOhFive_eq
        half_tenPointOne half_fivePointOhFive rounded_screenX rounded_screenY)

lemma screenToIsometric_tenPointOne:
  "screenToIsometric (Finite (- (4975070213360845 / 140737488355328)))
       (Finite (6396518845749657 / 281474976710656)) tenPointOne fivePointOhFive
     = \<lparr>vx = Finite 0, vy = Finite 8\<rparr>"
  by (simp add: screenToIsometric_def double_ops tenPointOne_eq fivePointOhFive_eq
        half_tenPointOne half_fivePointOhFive rounded_quotientX rounded_quotientY
        rounded_sum rounded_half_sum rounded_difference)

text \<open>
  C1. JavaScript numbers are doubles and every operation of the two conversions rounds.
  For integers \<open>gx\<close>, \<open>gy\<close> of magnitude at most \<open>2 ^ 51\<close> and positive tile dimensions \<open>tw\<close>,
  \<open>th\<close> for which the projection is computed without rounding (\<open>tw / 2\<close>, \<open>th / 2\<close>,
  \<open>(gx - gy) * (tw / 2)\<close> and \<open>(gx + gy) * (th / 2)\<close> are doubles), converting the projection of
  \<open>(gx, gy)\<close> back to the grid gives \<open>(gx, gy)\<close>. This is so for all integer tile dimensions
  from 1 to \<open>2 ^ 20\<close> and all integers \<open>gx\<close>, \<open>gy\<close> of magnitude at most \<open>2 ^ 30\<close>.
  \<open>isometricToScreen(3,2,64,32)\<close> is \<open>{x:32, y:80}\<close> and \<open>screenToIsometric(32,80,64,32)\<close> is
  \<open>{x:3, y:2}\<close>.
\<close>

theorem screenToIsometric_isometricToScreen:
  fixes gx gy ix iy iw ih :: int and tw th :: real
  shows "(\<bar>gx\<bar> \<le> 2 ^ 51 \<and> \<bar>gy\<bar> \<le> 2 ^ 51 \<and> 0 < tw \<and> 0 < th
            \<and> representable (tw / 2) \<and> representable (th / 2)
            \<and> representable (of_int (gx - gy) * (tw / 2))
            \<and> representable (of_int (gx + gy) * (th / 2))
          \<longrightarrow> (let p = isometricToScreen (Finite (of_int gx)) (Finite (of_int gy))
                          (Finite tw) (Finite th)
               in screenToIsometric (vx p) (vy p) (Finite tw) (Finite th))
                = \<lparr>vx = Finite (of_int gx), vy = Finite (of_int gy)\<rparr>)
         \<and> (\<bar>ix\<bar> \<le> 2 ^ 30 \<and> \<bar>iy\<bar> \<le> 2 ^ 30 \<and> 1 \<le> iw \<and> iw \<le> 2 ^ 20 \<and> 1 \<le> ih \<and> ih \<le> 2 ^ 20
          \<longrightarrow> (let p = isometricToScreen (Finite (of_int ix)) (Finite (of_int iy))
                          (Finite (of_int iw)) (Finite (of_int ih))
               in screenToIsometric (vx p) (vy p) (Finite (of_int iw)) (Finite (of_int ih)))
                = \<lparr>vx = Finite (of_int ix), vy = Finite (of_int iy)\<rparr>)
         \<and> isometricToScreen (Finite 3) (Finite 2) (Finite 64) (Finite 32)
             = \<lparr>vx = Finite 32, vy = Finite 80\<rparr>
         \<and> screenToIsometric (Finite 32) (Finite 80) (Finite 64) (Finite 32)
             = \<lparr>vx = Finite 3, vy = Finite 2\<rparr>"
proof (intro conjI impI)
  assume a: "\<bar>gx\<bar> \<le> 2 ^ 51 \<and> \<bar>gy\<bar> \<le> 2 ^ 51 \<and> 0 < tw \<and> 0 < th
            \<and> representable (tw / 2) \<and> representable (th / 2)
            \<and> representable (of_int (gx - gy) * (tw / 2))
            \<and> representable (of_int (gx + gy) * (th / 2))"
  then show "(let p = isometricToScreen (Finite (of_int gx)) (Finite (of_int gy))
                          (Finite tw) (Finite th)
               in screenToIsometric (vx p) (vy p) (Finite tw) (Finite th))
                = \<lparr>vx = Finite (of_int gx), vy = Finite (of_int gy)\<rparr>"
    using round_trip_exact [of gx gy tw th] by blast
next
  assume a: "\<bar>ix\<bar> \<le> 2 ^ 30 \<and> \<bar>iy\<bar> \<le> 2 ^ 30 \<and> 1 \<le> iw \<and> iw \<le> 2 ^ 20 \<and> 1 \<le> ih \<and> ih \<le> 2 ^ 20"
  then show "(let p = isometricToScreen (Finite (of_int ix)) (Finite (of_int iy))
                          (Finite (of_int iw)) (Finite (of_int ih))
               in screenToIsometric (vx p) (vy p) (Finite (of_int iw)) (Finite (of_int ih)))
                = \<lparr>vx = Finite (of_int ix), vy = Finite (of_int iy)\<rparr>"
    using round_trip_int_tiles [of ix iy iw ih] by blast
next
  show "isometricToScreen (Finite 3) (Finite 2) (Finite 64) (Finite 32)
          = \<lparr>vx = Finite 32, vy = Finite 80\<rparr>"
    by (simp add: isometricToScreen_def double_ops)
next
  show "screenToIsometric (Finite 32) (Finite 80) (Finite 64) (Finite 32)
          = \<lparr>vx = Finite 3, vy = Finite 2\<rparr>"
    by (simp add: screenToIsometric_def double_ops)
qed

theorem screenToIsometric_isometricToScreen_witness:
  "(\<bar>- 4 :: int\<bar> \<le> 2 ^ 51 \<and> \<bar>7 :: int\<bar> \<le> 2 ^ 51 \<and> (0 :: real) < 97 / 2 \<and> (0 :: real) < 81 / 4
      \<and> representable (97 / 2 / 2) \<and> representable (81 / 4 / 2)
      \<and> representable (of_int (- 4 - 7) * (97 / 2 / 2))
      \<and> representable (of_int (- 4 + 7) * (81 / 4 / 2)))
   \<and> (let p = isometricToScreen (Finite (of_int (- 4))) (Finite (of_int 7))
                 (Finite (97 / 2)) (Finite (81 / 4))
      in screenToIsometric (vx p) (vy p) (Finite (97 / 2)) (Finite (81 / 4)))
       = \<lparr>vx = Finite (of_int (- 4)), vy = Finite (of_int 7)\<rparr>
   \<and> (\<bar>- 4 :: int\<bar> \<le> 2 ^ 30 \<and> \<bar>7 :: int\<bar> \<le> 2 ^ 30 \<and> (1 :: int) \<le> 48 \<and> (48 :: int) \<le> 2 ^ 20
      \<and> (1 :: int) \<le> 20 \<and> (20 :: int) \<le> 2 ^ 20)
   \<and> (let p = isometricToScreen (Finite (of_int (- 4))) (Finite (of_int 7))
                 (Finite (of_int 48)) (Finite (of_int 20))
      in screenToIsometric (vx p) (vy p) (Finite (of_int 48)) (Finite (of_int 20)))
       = \<lparr>vx = Finite (of_int (- 4)), vy = Finite (of_int 7)\<rparr>"
proof -
  have r1: "representable (97 / 2 / 2)"
    using representable_dyadic [of 97 "- 2"] by (simp add: pow2_def)
  have r2: "representable (81 / 4 / 2)"
    using representable_dyadic [of 81 "- 3"] by (simp add: pow2_def)
  have r3: "representable (of_int (- 4 - 7) * (97 / 2 / 2))"
    using representable_dyadic [of "- 1067" "- 2"] by (simp add: pow2_def)
  have r4: "representable (of_int (- 4 + 7) * (81 / 4 / 2))"
    using representable_dyadic [of 243 "- 3"] by (simp add: pow2_def)
  have h1: "\<bar>- 4 :: int\<bar> \<le> 2 ^ 51 \<and> \<bar>7 :: int\<bar> \<le> 2 ^ 51 \<and> (0 :: real) < 97 / 2 \<and> (0 :: real) < 81 / 4
      \<and> representable (97 / 2 / 2) \<and> representable (81 / 4 / 2)
      \<and> representable (of_int (- 4 - 7) * (97 / 2 / 2))
      \<and> representable (of_int (- 4 + 7) * (81 / 4 / 2))"
    using r1 r2 r3 r4 by simp
  have h2: "\<bar>- 4 :: int\<bar> \<le> 2 ^ 30 \<and> \<bar>7 :: int\<bar> \<le> 2 ^ 30 \<and> (1 :: int) \<le> 48 \<and> (48 :: int) \<le> 2 ^ 20
      \<and> (1 :: int) \<le> 20 \<and> (20 :: int) \<le> 2 ^ 20"
    by simp
  note t = screenToIsometric_isometricToScreen [of "- 4" 7 "97 / 2" "81 / 4" "- 4" 7 48 20]
  from t h1 have c1: "(let p = isometricToScreen (Finite (of_int (- 4))) (Finite (of_int 7))
                 (Finite (97 / 2)) (Finite (81 / 4))
      in screenToIsometric (vx p) (vy p) (Finite (97 / 2)) (Finite (81 / 4)))
       = \<lparr>vx = Finite (of_int (- 4)), vy = Finite (of_int 7)\<rparr>"
    by blast
  from t h2 have c2: "(let p = isometricToScreen (Finite (of_int (- 4))) (Finite (of_int 7))
                 (Finite (of_int 48)) (Finite (of_int 20))
      in screenToIsometric (vx p) (vy p) (Finite (of_int 48)) (Finite (of_int 20)))
       = \<lparr>vx = Finite (of_int (- 4)), vy = Finite (of_int 7)\<rparr>"
    by blast
  from h1 c1 h2 c2 show ?thesis by blast
qed

text \<open>
  The projection of (1, 8) on tiles of 10.1 by 5.05 is rounded, and converting it back
  gives (0, 8).
\<close>

theorem screenToIsometric_isometricToScreen_counterexample:
  "tenPointOne = Finite (5685794529555251 / 562949953421312)
   \<and> fivePointOhFive = Finite (5685794529555251 / 1125899906842624)
   \<and> (let p = isometricToScreen (Finite (of_int 1)) (Finite (of_int 8)) tenPointOne fivePointOhFive
      in screenToIsometric (vx p) (vy p) tenPointOne fivePointOhFive)
       = \<lparr>vx = Finite 0, vy = Finite 8\<rparr>"
proof -
  have "(let p = isometricToScreen (Finite (of_int 1)) (Finite (of_int 8)) tenPointOne fivePointOhFive
         in screenToIsometric (vx p) (vy p) tenPointOne fivePointOhFive)
          = \<lparr>vx = Finite 0, vy = Finite 8\<rparr>"
    by (simp add: isometricToScreen_tenPointOne screenToIsometric_tenPointOne)
  with tenPointOne_eq fivePointOhFive_eq show ?thesis by blast
qed

subsection \<open>The clamp of the placement resolver\<close>

lemma fadd_not_NaN:
  assumes "finiteNumber a" and "finiteNumber b"
  shows "fadd a b \<noteq> NaN"
  using assms by (cases a; cases b) (simp_all add: fadd_def isInf_def signedZero_def toDouble_not_NaN)

lemma fsub_not_NaN:
  assumes "finiteNumber a" and "finiteNumber b"
  shows "fsub a b \<noteq> NaN"
proof -
  have "finiteNumber (fneg b)" using assms(2) by (cases b) simp_all
  from fadd_not_NaN [OF assms(1) this] show ?thesis by (simp add: fsub_def)
qed

lemma fdiv_two_not_NaN:
  assumes "c \<noteq> NaN"
  shows "fdiv c (Finite 2) \<noteq> NaN"
  using assms
  by (simp add: fdiv_def isInf_def isZero_def signedInf_def signedZero_def toDouble_not_NaN)

lemma mathFloor_NaN: "(mathFloor d = NaN) = (d = NaN)"
  by (cases d) simp_all

lemma screenToIsometric_not_NaN:
  assumes "finiteNumber (fdiv sx (fdiv tw (Finite 2)))"
    and "finiteNumber (fdiv sy (fdiv th (Finite 2)))"
  shows "vx (screenToIsometric sx sy tw th) \<noteq> NaN \<and> vy (screenToIsometric sx sy tw th) \<noteq> NaN"
  using fdiv_two_not_NaN [OF fadd_not_NaN [OF assms(1) assms(2)]]
    fdiv_two_not_NaN [OF fsub_not_NaN [OF assms(2) assms(1)]]
  by (simp add: screenToIsometric_def Let_def mathFloor_NaN)

lemma calculateGridPosition_clamp:
  assumes "width gs = Finite w" and "height gs = Finite h"
    and "representable w" and "representable h"
    and "1 \<le> w" and "w \<le> 2 ^ 53" and "1 \<le> h" and "h \<le> 2 ^ 53"
  shows "calculateGridPosition gs ts off z x y =
     (let g = screenToIsometric (fdiv (fsub x (vx off)) z) (fdiv (fsub y (vy off)) z)
                (width ts) (height ts)
      in \<lparr>vx = mathMax (Finite 0) (mathMin (Finite (w - 1)) (mathRound (vx g))),
          vy = mathMax (Finite 0) (mathMin (Finite (h - 1)) (mathRound (vy g)))\<rparr>)"
  by (simp add: calculateGridPosition_def Let_def assms(1,2)
        fsub_one_exact [OF assms(3) assms(5) assms(6)] fsub_one_exact [OF assms(4) assms(7) assms(8)])

lemma toJs_clamp:
  assumes "0 \<le> u"
  shows "\<exists>j. toJs (mathMax (Finite 0) (mathMin (Finite u) (mathRound g))) = Some j \<and> nanOrWithin u j"
proof (cases "g = NaN")
  case True
  then have "mathMax (Finite 0) (mathMin (Finite u) (mathRound g)) = NaN"
    using clamp_cases [OF assms, of g] by simp
  then show ?thesis by simp
next
  case False
  from clamp_finite [OF assms False] obtain r where
    "mathMax (Finite 0) (mathMin (Finite u) (mathRound g)) = Finite r" and "0 \<le> r" and "r \<le> u"
    by blast
  then show ?thesis by simp
qed

lemma positionObject_calculateGridPosition:
  assumes "width gs = Finite w" and "height gs = Finite h"
    and "representable w" and "representable h"
    and "1 \<le> w" and "w \<le> 2 ^ 53" and "1 \<le> h" and "h \<le> 2 ^ 53"
  shows "\<exists>pos. positionObject (calculateGridPosition gs ts off z x y) = Some pos
           \<and> nanOrInGrid w h pos"
proof -
  let ?g = "screenToIsometric (fdiv (fsub x (vx off)) z) (fdiv (fsub y (vy off)) z)
              (width ts) (height ts)"
  have u: "0 \<le> w - 1" "0 \<le> h - 1" using assms(5,7) by simp_all
  from toJs_clamp [OF u(1), of "vx ?g"] obtain jx where
    jx: "toJs (mathMax (Finite 0) (mathMin (Finite (w - 1)) (mathRound (vx ?g)))) = Some jx"
    and wx: "nanOrWithin (w - 1) jx" by blast
  from toJs_clamp [OF u(2), of "vy ?g"] obtain jy where
    jy: "toJs (mathMax (Finite 0) (mathMin (Finite (h - 1)) (mathRound (vy ?g)))) = Some jy"
    and wy: "nanOrWithin (h - 1) jy" by blast
  have "positionObject (calculateGridPosition gs ts off z x y) = Some (JObj [(''x'', jx), (''y'', jy)])"
    unfolding calculateGridPosition_clamp [OF assms] by (simp add: positionObject_def Let_def jx jy)
  moreover have "nanOrInGrid w h (JObj [(''x'', jx), (''y'', jy)])"
    using wx wy by (simp add: nanOrInGrid_def)
  ultimately show ?thesis by blast
qed

lemma handleDragEnd_new:
  assumes "elements s = Some els" and "overTarget ev"
    and "take 8 (activeId ev) = ''palette-''" and "truthy (getProp (activeData ev) ''type'')"
    and "positionObject (calculateGridPosition gs ts off z (clientX ev) (clientY ev)) = Some pos"
  shows "\<exists>s' e. handleDragEnd gs ts off z now ev s = Inr s' \<and> elements s' = Some (els @ [e])
          \<and> getProp (JObj e) ''position'' = pos"
proof -
  let ?arg = "JObj [(''type'', getProp (activeData ev) ''type''), (''position'', pos),
                    (''rotation'', JNum 0), (''scale'', JNum 1)]"
  let ?e = "spreadInto [(''id'', JStr (toString now))] ?arg"
  have "handleDragEnd gs ts off z now ev s =
          Inr ((addToHistory (- 1) (els @ [?e]) s)
                 \<lparr>elements := Some (els @ [?e]), sceneModified := True\<rparr>)"
    using assms by (simp add: handleDragEnd_def addElement_def addElementWith_def Let_def)
  moreover have "getProp (JObj ?e) ''position'' = pos"
    by (simp add: map_of_spreadInto_obj)
  ultimately show ?thesis by auto
qed

lemma handleDragEnd_move:
  assumes "elements s = Some els" and "overTarget ev"
    and "take 8 (activeId ev) \<noteq> ''palette-''"
    and "getProp (activeData ev) ''id'' = JStr i" and "i \<noteq> []"
    and "positionObject (calculateGridPosition gs ts off z (clientX ev) (clientY ev)) = Some pos"
  shows "\<exists>s' els'. handleDragEnd gs ts off z now ev s = Inr s' \<and> elements s' = Some els'
          \<and> length els' = length els
          \<and> (\<forall>k < length els.
                if hasId i (els ! k)
                then getProp (JObj (els' ! k)) ''position'' = pos
                else els' ! k = els ! k)"
proof -
  let ?u = "JObj [(''position'', pos)]"
  let ?els' = "map (\<lambda>element.
                 if hasId i element then spreadInto (spreadInto [] (JObj element)) ?u
                 else element) els"
  have "handleDragEnd gs ts off z now ev s =
          Inr ((addToHistory (- 1) ?els' s)\<lparr>elements := Some ?els', sceneModified := True\<rparr>)"
    using assms by (simp add: handleDragEnd_def updateElement_def updateElementWith_def Let_def)
  moreover have "\<forall>k < length els.
                if hasId i (els ! k)
                then getProp (JObj (?els' ! k)) ''position'' = pos
                else ?els' ! k = els ! k"
    by (simp add: map_of_spreadInto_obj)
  ultimately show ?thesis by auto
qed

text \<open>
  C4. The position is computed in doubles: a division by a zoom or a tile size of zero
  gives an infinity, and the difference of two infinities is NaN, which the clamp lets
  through (\<open>Math.round\<close>, \<open>Math.min\<close> and \<open>Math.max\<close> of NaN are NaN). For every screen
  coordinate, pan offset, zoom and tile size, and every grid whose width and height are
  doubles from 1 to \<open>2 ^ 53\<close>: each coordinate of the position that
  \<open>calculateGridPosition\<close> returns is NaN exactly when that coordinate of the screen-to-grid
  conversion is NaN, and is otherwise a number in \<open>[0, gridWidth-1]\<close>, respectively
  \<open>[0, gridHeight-1]\<close>. When the two quotients of the adjusted coordinates by the half tile
  sizes are finite numbers the position lies in \<open>[0, gridWidth-1] x [0, gridHeight-1]\<close>.
  \<open>handleDragEnd\<close> stores the position returned: in the element it adds for an item
  dragged from the palette, and in every element with the dragged id when an existing
  element is moved; each stored coordinate is NaN or inside the bounds.
\<close>

theorem calculateGridPosition_in_bounds:
  assumes "width gs = Finite w" and "height gs = Finite h"
    and "representable w" and "representable h"
    and "1 \<le> w" and "w \<le> 2 ^ 53" and "1 \<le> h" and "h \<le> 2 ^ 53"
  shows "(let g = screenToIsometric (fdiv (fsub x (vx off)) z) (fdiv (fsub y (vy off)) z)
                    (width ts) (height ts);
              p = calculateGridPosition gs ts off z x y
          in (vx p = NaN) = (vx g = NaN) \<and> (vy p = NaN) = (vy g = NaN)
             \<and> (vx g \<noteq> NaN \<longrightarrow> (\<exists>r. vx p = Finite r \<and> 0 \<le> r \<and> r \<le> w - 1))
             \<and> (vy g \<noteq> NaN \<longrightarrow> (\<exists>r. vy p = Finite r \<and> 0 \<le> r \<and> r \<le> h - 1)))
         \<and> (finiteNumber (fdiv (fdiv (fsub x (vx off)) z) (fdiv (width ts) (Finite 2)))
             \<and> finiteNumber (fdiv (fdiv (fsub y (vy off)) z) (fdiv (height ts) (Finite 2)))
            \<longrightarrow> (\<exists>rx ry. calculateGridPosition gs ts off z x y = \<lparr>vx = Finite rx, vy = Finite ry\<rparr>
                    \<and> 0 \<le> rx \<and> rx \<le> w - 1 \<and> 0 \<le> ry \<and> ry \<le> h - 1))
         \<and> (elements s = Some els \<and> overTarget ev \<and> take 8 (activeId ev) = ''palette-''
              \<and> truthy (getProp (activeData ev) ''type'') \<longrightarrow>
             (\<exists>s' e. handleDragEnd gs ts off z now ev s = Inr s'
                \<and> elements s' = Some (els @ [e])
                \<and> positionObject (calculateGridPosition gs ts off z (clientX ev) (clientY ev))
                    = Some (getProp (JObj e) ''position'')
                \<and> nanOrInGrid w h (getProp (JObj e) ''position'')))
         \<and> (elements s = Some els \<and> overTarget ev \<and> take 8 (activeId ev) \<noteq> ''palette-''
              \<and> getProp (activeData ev) ''id'' = JStr i \<and> i \<noteq> [] \<longrightarrow>
             (\<exists>s' els'. handleDragEnd gs ts off z now ev s = Inr s'
                \<and> elements s' = Some els' \<and> length els' = length els
                \<and> (\<forall>k < length els.
                      if hasId i (els ! k)
                      then positionObject (calculateGridPosition gs ts off z (clientX ev) (clientY ev))
                             = Some (getProp (JObj (els' ! k)) ''position'')
                           \<and> nanOrInGrid w h (getProp (JObj (els' ! k)) ''position'')
                      else els' ! k = els ! k)))"
proof -
  let ?g = "screenToIsometric (fdiv (fsub x (vx off)) z) (fdiv (fsub y (vy off)) z)
              (width ts) (height ts)"
  note c = calculateGridPosition_clamp [OF assms, of ts off z x y]
  have u: "0 \<le> w - 1" "0 \<le> h - 1" using assms(5,7) by simp_all
  have px: "vx (calculateGridPosition gs ts off z x y)
              = mathMax (Finite 0) (mathMin (Finite (w - 1)) (mathRound (vx ?g)))"
    and py: "vy (calculateGridPosition gs ts off z x y)
              = mathMax (Finite 0) (mathMin (Finite (h - 1)) (mathRound (vy ?g)))"
    unfolding c by (simp_all add: Let_def)
  have clamped: "let g = ?g; p = calculateGridPosition gs ts off z x y
        in (vx p = NaN) = (vx g = NaN) \<and> (vy p = NaN) = (vy g = NaN)
           \<and> (vx g \<noteq> NaN \<longrightarrow> (\<exists>r. vx p = Finite r \<and> 0 \<le> r \<and> r \<le> w - 1))
           \<and> (vy g \<noteq> NaN \<longrightarrow> (\<exists>r. vy p = Finite r \<and> 0 \<le> r \<and> r \<le> h - 1))"
    unfolding Let_def px py
    using clamp_cases [OF u(1), of "vx ?g"] clamp_cases [OF u(2), of "vy ?g"] by blast
  have bounded: "finiteNumber (fdiv (fdiv (fsub x (vx off)) z) (fdiv (width ts) (Finite 2)))
             \<and> finiteNumber (fdiv (fdiv (fsub y (vy off)) z) (fdiv (height ts) (Finite 2)))
            \<longrightarrow> (\<exists>rx ry. calculateGridPosition gs ts off z x y = \<lparr>vx = Finite rx, vy = Finite ry\<rparr>
                    \<and> 0 \<le> rx \<and> rx \<le> w - 1 \<and> 0 \<le> ry \<and> ry \<le> h - 1)"
  proof (rule impI)
    assume f: "finiteNumber (fdiv (fdiv (fsub x (vx off)) z) (fdiv (width ts) (Finite 2)))
             \<and> finiteNumber (fdiv (fdiv (fsub y (vy off)) z) (fdiv (height ts) (Finite 2)))"
    then have n: "vx ?g \<noteq> NaN" "vy ?g \<noteq> NaN"
      using screenToIsometric_not_NaN
              [of "fdiv (fsub x (vx off)) z" "width ts" "fdiv (fsub y (vy off)) z" "height ts"]
      by simp_all
    from clamp_finite [OF u(1) n(1)] obtain rx where
      rx: "mathMax (Finite 0) (mathMin (Finite (w - 1)) (mathRound (vx ?g))) = Finite rx"
        "0 \<le> rx" "rx \<le> w - 1" by blast
    from clamp_finite [OF u(2) n(2)] obtain ry where
      ry: "mathMax (Finite 0) (mathMin (Finite (h - 1)) (mathRound (vy ?g))) = Finite ry"
        "0 \<le> ry" "ry \<le> h - 1" by blast
    have "calculateGridPosition gs ts off z x y = \<lparr>vx = Finite rx, vy = Finite ry\<rparr>"
      unfolding c Let_def rx(1) ry(1) by (rule refl)
    with rx(2,3) ry(2,3)
    show "\<exists>rx ry. calculateGridPosition gs ts off z x y = \<lparr>vx = Finite rx, vy = Finite ry\<rparr>
                    \<and> 0 \<le> rx \<and> rx \<le> w - 1 \<and> 0 \<le> ry \<and> ry \<le> h - 1"
      by blast
  qed
  from positionObject_calculateGridPosition [OF assms, of ts off z "clientX ev" "clientY ev"]
  obtain pos where
    pos: "positionObject (calculateGridPosition gs ts off z (clientX ev) (clientY ev)) = Some pos"
    and ok: "nanOrInGrid w h pos" by blast
  have placed: "elements s = Some els \<and> overTarget ev \<and> take 8 (activeId ev) = ''palette-''
              \<and> truthy (getProp (activeData ev) ''type'') \<longrightarrow>
             (\<exists>s' e. handleDragEnd gs ts off z now ev s = Inr s'
                \<and> elements s' = Some (els @ [e])
                \<and> positionObject (calculateGridPosition gs ts off z (clientX ev) (clientY ev))
                    = Some (getProp (JObj e) ''position'')
                \<and> nanOrInGrid w h (getProp (JObj e) ''position''))"
  proof (rule impI)
    assume a: "elements s = Some els \<and> overTarget ev \<and> take 8 (activeId ev) = ''palette-''
               \<and> truthy (getProp (activeData ev) ''type'')"
    with pos handleDragEnd_new [of s els ev gs ts off z pos now]
    obtain s' e where "handleDragEnd gs ts off z now ev s = Inr s'"
      and "elements s' = Some (els @ [e])" and "getProp (JObj e) ''position'' = pos"
      by blast
    with pos ok
    show "\<exists>s' e. handleDragEnd gs ts off z now ev s = Inr s'
                \<and> elements s' = Some (els @ [e])
                \<and> positionObject (calculateGridPosition gs ts off z (clientX ev) (clientY ev))
                    = Some (getProp (JObj e) ''position'')
                \<and> nanOrInGrid w h (getProp (JObj e) ''position'')"
      by auto
  qed
  have moved: "elements s = Some els \<and> overTarget ev \<and> take 8 (activeId ev) \<noteq> ''palette-''
              \<and> getProp (activeData ev) ''id'' = JStr i \<and> i \<noteq> [] \<longrightarrow>
             (\<exists>s' els'. handleDragEnd gs ts off z now ev s = Inr s'
                \<and> elements s' = Some els' \<and> length els' = length els
                \<and> (\<forall>k < length els.
                      if hasId i (els ! k)
                      then positionObject (calculateGridPosition gs ts off z (clientX ev) (clientY ev))
                             = Some (getProp (JObj (els' ! k)) ''position'')
                           \<and> nanOrInGrid w h (getProp (JObj (els' ! k)) ''position'')
                      else els' ! k = els ! k))"
  proof (rule impI)
    assume a: "elements s = Some els \<and> overTarget ev \<and> take 8 (activeId ev) \<noteq> ''palette-''
               \<and> getProp (activeData ev) ''id'' = JStr i \<and> i \<noteq> []"
    with pos handleDragEnd_move [of s els ev i gs ts off z pos now]
    obtain s' els' where h: "handleDragEnd gs ts off z now ev s = Inr s'"
      and e: "elements s' = Some els'" and l: "length els' = length els"
      and m: "\<forall>k < length els.
                if hasId i (els ! k)
                then getProp (JObj (els' ! k)) ''position'' = pos
                else els' ! k = els ! k"
      by blast
    have "\<forall>k < length els.
                      if hasId i (els ! k)
                      then positionObject (calculateGridPosition gs ts off z (clientX ev) (clientY ev))
                             = Some (getProp (JObj (els' ! k)) ''position'')
                           \<and> nanOrInGrid w h (getProp (JObj (els' ! k)) ''position'')
                      else els' ! k = els ! k"
      using m pos ok by (auto split: if_splits)
    with h e l show "\<exists>s' els'. handleDragEnd gs ts off z now ev s = Inr s'
                \<and> elements s' = Some els' \<and> length els' = length els
                \<and> (\<forall>k < length els.
                      if hasId i (els ! k)
                      then positionObject (calculateGridPosition gs ts off z (clientX ev) (clientY ev))
                             = Some (getProp (JObj (els' ! k)) ''position'')
                           \<and> nanOrInGrid w h (getProp (JObj (els' ! k)) ''position'')
                      else els' ! k = els ! k)"
      by blast
  qed
  show ?thesis
    by (rule conjI [OF clamped conjI [OF bounded conjI [OF placed moved]]])
qed

lemmas drag_eval =
  calculateGridPosition_def screenToIsometric_def double_ops Let_def
  exampleGrid_def loadedGrid_def exampleTile_def zeroTile_def examplePan_def noPan_def

lemma paletteDrop_position:
  "calculateGridPosition exampleGrid exampleTile examplePan (Finite 2) (Finite 5220) (Finite 3058)
     = \<lparr>vx = Finite 9, vy = Finite 7\<rparr>"
  by (simp add: drag_eval)

lemma elementDrop_position:
  "calculateGridPosition loadedGrid exampleTile examplePan (Finite 2) (Finite (- 668)) (Finite 114)
     = \<lparr>vx = Finite 0, vy = Finite 7\<rparr>"
  by (simp add: drag_eval)

lemma zoom_zero_position:
  "calculateGridPosition exampleGrid exampleTile noPan (Finite 0) (Finite 5) (Finite 5)
     = \<lparr>vx = Finite 9, vy = NaN\<rparr>"
  by (simp add: drag_eval)

lemma zero_tile_position:
  "calculateGridPosition exampleGrid zeroTile noPan (Finite 1) (Finite 5) (Finite 5)
     = \<lparr>vx = Finite 9, vy = NaN\<rparr>"
  by (simp add: drag_eval)

lemma representable_10: "representable 10"
  by (simp add: representable_def)

lemma representable_12: "representable 12"
  by (simp add: representable_def)

lemma representable_8: "representable 8"
  by (simp add: representable_def)

theorem calculateGridPosition_in_bounds_witness:
  "screenToIsometric (fdiv (fsub (Finite 5220) (vx examplePan)) (Finite 2))
       (fdiv (fsub (Finite 3058) (vy examplePan)) (Finite 2)) (width exampleTile) (height exampleTile)
     = \<lparr>vx = Finite 87, vy = Finite 7\<rparr>
   \<and> finiteNumber (fdiv (fdiv (fsub (Finite 5220) (vx examplePan)) (Finite 2))
                    (fdiv (width exampleTile) (Finite 2)))
   \<and> finiteNumber (fdiv (fdiv (fsub (Finite 3058) (vy examplePan)) (Finite 2))
                    (fdiv (height exampleTile) (Finite 2)))
   \<and> (\<exists>rx ry. calculateGridPosition exampleGrid exampleTile examplePan (Finite 2)
                 (Finite 5220) (Finite 3058) = \<lparr>vx = Finite rx, vy = Finite ry\<rparr>
         \<and> 0 \<le> rx \<and> rx \<le> 10 - 1 \<and> 0 \<le> ry \<and> ry \<le> 10 - 1)
   \<and> calculateGridPosition exampleGrid exampleTile examplePan (Finite 2) (Finite 5220) (Finite 3058)
       = \<lparr>vx = Finite 9, vy = Finite 7\<rparr>
   \<and> (\<exists>s' e. handleDragEnd exampleGrid exampleTile examplePan (Finite 2) 1000 paletteDrop mountedScene
                = Inr s'
          \<and> elements s' = Some [e]
          \<and> getProp (JObj e) ''position'' = JObj [(''x'', JNum 9), (''y'', JNum 7)]
          \<and> nanOrInGrid 10 10 (getProp (JObj e) ''position''))
   \<and> (\<exists>s' els'. handleDragEnd loadedGrid exampleTile examplePan (Finite 2) 1000 elementDrop loadedScene
                = Inr s'
          \<and> elements s' = Some els' \<and> length els' = 1
          \<and> getProp (JObj (els' ! 0)) ''position'' = JObj [(''x'', JNum 0), (''y'', JNum 7)]
          \<and> nanOrInGrid 12 8 (getProp (JObj (els' ! 0)) ''position''))"
proof -
  have v: "screenToIsometric (fdiv (fsub (Finite 5220) (vx examplePan)) (Finite 2))
       (fdiv (fsub (Finite 3058) (vy examplePan)) (Finite 2)) (width exampleTile) (height exampleTile)
     = \<lparr>vx = Finite 87, vy = Finite 7\<rparr>"
    by (simp add: drag_eval)
  have f: "finiteNumber (fdiv (fdiv (fsub (Finite 5220) (vx examplePan)) (Finite 2))
                    (fdiv (width exampleTile) (Finite 2)))
   \<and> finiteNumber (fdiv (fdiv (fsub (Finite 3058) (vy examplePan)) (Finite 2))
                    (fdiv (height exampleTile) (Finite 2)))"
    by (simp add: drag_eval)
  have g: "width exampleGrid = Finite 10" "height exampleGrid = Finite 10"
    "representable 10" "representable 10" "(1::real) \<le> 10" "(10::real) \<le> 2 ^ 53"
    "(1::real) \<le> 10" "(10::real) \<le> 2 ^ 53"
    by (simp_all add: exampleGrid_def representable_10)
  have g': "width loadedGrid = Finite 12" "height loadedGrid = Finite 8"
    "representable 12" "representable 8" "(1::real) \<le> 12" "(12::real) \<le> 2 ^ 53"
    "(1::real) \<le> 8" "(8::real) \<le> 2 ^ 53"
    by (simp_all add: loadedGrid_def representable_12 representable_8)
  note t = calculateGridPosition_in_bounds [OF g]
  note t' = calculateGridPosition_in_bounds [OF g']
  from t [of "Finite 5220" examplePan "Finite 2" "Finite 3058" exampleTile] f
  have b: "\<exists>rx ry. calculateGridPosition exampleGrid exampleTile examplePan (Finite 2)
                 (Finite 5220) (Finite 3058) = \<lparr>vx = Finite rx, vy = Finite ry\<rparr>
         \<and> 0 \<le> rx \<and> rx \<le> 10 - 1 \<and> 0 \<le> ry \<and> ry \<le> 10 - 1"
    by blast
  have m: "elements mountedScene = Some []"
    by (simp add: mountedScene_def initialScene_def initHistory_def)
  have pd: "overTarget paletteDrop \<and> take 8 (activeId paletteDrop) = ''palette-''
            \<and> truthy (getProp (activeData paletteDrop) ''type'')"
    by (simp add: paletteDrop_def)
  have pp: "positionObject (calculateGridPosition exampleGrid exampleTile examplePan (Finite 2)
              (clientX paletteDrop) (clientY paletteDrop))
            = Some (JObj [(''x'', JNum 9), (''y'', JNum 7)])"
    by (simp add: paletteDrop_def paletteDrop_position positionObject_def)
  from t [of "Finite 0" examplePan "Finite 2" "Finite 0" exampleTile mountedScene "[]" paletteDrop 1000]
    m pd
  obtain s' e where
    "handleDragEnd exampleGrid exampleTile examplePan (Finite 2) 1000 paletteDrop mountedScene = Inr s'"
    and "elements s' = Some ([] @ [e])"
    and "positionObject (calculateGridPosition exampleGrid exampleTile examplePan (Finite 2)
           (clientX paletteDrop) (clientY paletteDrop)) = Some (getProp (JObj e) ''position'')"
    and "nanOrInGrid 10 10 (getProp (JObj e) ''position'')"
    by blast
  with pp have a: "\<exists>s' e. handleDragEnd exampleGrid exampleTile examplePan (Finite 2) 1000 paletteDrop
                mountedScene = Inr s'
          \<and> elements s' = Some [e]
          \<and> getProp (JObj e) ''position'' = JObj [(''x'', JNum 9), (''y'', JNum 7)]
          \<and> nanOrInGrid 10 10 (getProp (JObj e) ''position'')"
    by auto
  have l: "elements loadedScene = Some [treeAt ''41'' 2 3]"
    by (simp add: loadedScene_eq)
  have ed: "overTarget elementDrop \<and> take 8 (activeId elementDrop) \<noteq> ''palette-''
            \<and> getProp (activeData elementDrop) ''id'' = JStr ''41'' \<and> ''41'' \<noteq> []"
    by (simp add: elementDrop_def)
  have ep: "positionObject (calculateGridPosition loadedGrid exampleTile examplePan (Finite 2)
              (clientX elementDrop) (clientY elementDrop))
            = Some (JObj [(''x'', JNum 0), (''y'', JNum 7)])"
    by (simp add: elementDrop_def elementDrop_position positionObject_def)
  have k: "hasId ''41'' ([treeAt ''41'' 2 3] ! 0)"
    by (simp add: hasId_def treeAt_def)
  from t' [of "Finite 0" examplePan "Finite 2" "Finite 0" exampleTile loadedScene
             "[treeAt ''41'' 2 3]" elementDrop 1000 "''41''"] l ed
  obtain s'' els' where
    h: "handleDragEnd loadedGrid exampleTile examplePan (Finite 2) 1000 elementDrop loadedScene = Inr s''"
    and e: "elements s'' = Some els'" and n: "length els' = length [treeAt ''41'' 2 3]"
    and q: "\<forall>k < length [treeAt ''41'' 2 3].
              if hasId ''41'' ([treeAt ''41'' 2 3] ! k)
              then positionObject (calculateGridPosition loadedGrid exampleTile examplePan (Finite 2)
                     (clientX elementDrop) (clientY elementDrop))
                     = Some (getProp (JObj (els' ! k)) ''position'')
                   \<and> nanOrInGrid 12 8 (getProp (JObj (els' ! k)) ''position'')
              else els' ! k = [treeAt ''41'' 2 3] ! k"
    by blast
  from q k have "positionObject (calculateGridPosition loadedGrid exampleTile examplePan (Finite 2)
                     (clientX elementDrop) (clientY elementDrop))
                     = Some (getProp (JObj (els' ! 0)) ''position'')
                   \<and> nanOrInGrid 12 8 (getProp (JObj (els' ! 0)) ''position'')"
    by (simp del: getProp.simps)
  with ep h e n
  have c: "\<exists>s' els'. handleDragEnd loadedGrid exampleTile examplePan (Finite 2) 1000 elementDrop
                loadedScene = Inr s'
          \<and> elements s' = Some els' \<and> length els' = 1
          \<and> getProp (JObj (els' ! 0)) ''position'' = JObj [(''x'', JNum 0), (''y'', JNum 7)]
          \<and> nanOrInGrid 12 8 (getProp (JObj (els' ! 0)) ''position'')"
    by auto
  from v f b paletteDrop_position a c show ?thesis by blast
qed

text \<open>
  At zoom 0, and on tiles of size 0 at zoom 1, the pointer at (5, 5) on a grid of 10 by 10
  gives the position \<open>{x: 9, y: NaN}\<close>, and \<open>handleDragEnd\<close> stores it.
\<close>

theorem calculateGridPosition_in_bounds_counterexample:
  "calculateGridPosition exampleGrid exampleTile noPan (Finite 0) (Finite 5) (Finite 5)
     = \<lparr>vx = Finite 9, vy = NaN\<rparr>
   \<and> calculateGridPosition exampleGrid zeroTile noPan (Finite 1) (Finite 5) (Finite 5)
       = \<lparr>vx = Finite 9, vy = NaN\<rparr>
   \<and> (\<exists>s' e. handleDragEnd exampleGrid exampleTile noPan (Finite 0) 1000 cornerDrop mountedScene
                = Inr s'
          \<and> elements s' = Some [e]
          \<and> getProp (JObj e) ''position'' = JObj [(''x'', JNum 9), (''y'', JNaN)]
          \<and> \<not> inGrid 10 10 (getProp (JObj e) ''position''))"
proof -
  have m: "elements mountedScene = Some []"
    by (simp add: mountedScene_def initialScene_def initHistory_def)
  have cd: "overTarget cornerDrop" "take 8 (activeId cornerDrop) = ''palette-''"
    "truthy (getProp (activeData cornerDrop) ''type'')"
    by (simp_all add: cornerDrop_def)
  have p: "positionObject (calculateGridPosition exampleGrid exampleTile noPan (Finite 0)
              (clientX cornerDrop) (clientY cornerDrop))
            = Some (JObj [(''x'', JNum 9), (''y'', JNaN)])"
    by (simp add: cornerDrop_def zoom_zero_position positionObject_def)
  from handleDragEnd_new [OF m cd p, of 1000]
  obtain s' e where
    "handleDragEnd exampleGrid exampleTile noPan (Finite 0) 1000 cornerDrop mountedScene = Inr s'"
    and "elements s' = Some ([] @ [e])"
    and "getProp (JObj e) ''position'' = JObj [(''x'', JNum 9), (''y'', JNaN)]"
    by blast
  moreover have "\<not> inGrid 10 10 (JObj [(''x'', JNum 9), (''y'', JNaN)])"
    by (simp add: inGrid_def)
  ultimately have "\<exists>s' e. handleDragEnd exampleGrid exampleTile noPan (Finite 0) 1000 cornerDrop
                       mountedScene = Inr s'
          \<and> elements s' = Some [e]
          \<and> getProp (JObj e) ''position'' = JObj [(''x'', JNum 9), (''y'', JNaN)]
          \<and> \<not> inGrid 10 10 (getProp (JObj e) ''position'')"
    by auto
  with zoom_zero_position zero_tile_position show ?thesis by blast
qed

section \<open>Properties of validation and loading\<close>

lemma validateSceneData_iff:
  "validateSceneData d = (d \<noteq> JUndefined \<and> d \<noteq> JNull \<and> isArray (getProp d ''elements''))"
  by (cases d) (auto simp: validateSceneData_def)

lemma deserializeScene_eq:
  "deserializeScene d =
     (if validateSceneData d
      then Inr \<lparr>ss_elements = Some (map (spreadInto []) (arrayItems (getProp d ''elements''))),
                ss_gridSize = getProp (getProp d ''metadata'') ''gridSize'',
                ss_tileSize = getProp (getProp d ''metadata'') ''tileSize''\<rparr>
      else Inl (Error ''Invalid scene data format''))"
  by (cases "getProp d ''elements''") (auto simp: deserializeScene_def validateSceneData_iff Let_def)

lemma deserializeScene_elements:
  "deserializeScene d = Inr st \<Longrightarrow> \<exists>els. ss_elements st = Some els"
  by (auto simp: deserializeScene_eq split: if_splits)

text \<open>
  C8. \<open>validateSceneData\<close> accepts exactly the values that are present (neither \<open>undefined\<close>
  nor \<open>null\<close>) and whose \<open>elements\<close> property is an array; the \<open>version\<close> property has no
  influence. \<open>deserializeScene\<close> throws its error exactly for the values that
  \<open>validateSceneData\<close> rejects and returns the scene state for every other value.
\<close>

theorem validateSceneData_deserializeScene:
  "validateSceneData d = (d \<noteq> JUndefined \<and> d \<noteq> JNull \<and> isArray (getProp d ''elements''))
   \<and> validateSceneData (JObj (AList.delete ''version'' ps)) = validateSceneData (JObj ps)
   \<and> deserializeScene d =
       (if validateSceneData d
        then Inr \<lparr>ss_elements = Some (map (spreadInto []) (arrayItems (getProp d ''elements''))),
                  ss_gridSize = getProp (getProp d ''metadata'') ''gridSize'',
                  ss_tileSize = getProp (getProp d ''metadata'') ''tileSize''\<rparr>
        else Inl (Error ''Invalid scene data format''))"
proof -
  have "validateSceneData (JObj (AList.delete ''version'' ps)) = validateSceneData (JObj ps)"
    by (simp add: validateSceneData_iff)
  then show ?thesis
    using validateSceneData_iff [of d] deserializeScene_eq [of d] by simp
qed

theorem validateSceneData_deserializeScene_witness:
  "validateSceneData (JObj [(''elements'', JArr [])])
   \<and> \<not> validateSceneData (JObj [(''version'', JStr ''1.0.0''), (''elements'', JStr ''none'')])
   \<and> deserializeScene (JObj [(''version'', JStr ''1.0.0''), (''elements'', JStr ''none'')])
       = Inl (Error ''Invalid scene data format'')
   \<and> deserializeScene (JObj [(''elements'', JArr [])])
       = Inr \<lparr>ss_elements = Some [], ss_gridSize = JUndefined, ss_tileSize = JUndefined\<rparr>"
  using validateSceneData_deserializeScene [of "JObj [(''elements'', JArr [])]" "[]"]
    validateSceneData_deserializeScene
      [of "JObj [(''version'', JStr ''1.0.0''), (''elements'', JStr ''none'')]" "[]"]
  by simp

lemma loadScene_True:
  assumes "loadScene ls name s = (True, s')"
  shows "\<exists>st els. loadSceneFromLocalStorage ls name = Some st \<and> ss_elements st = Some els
           \<and> elements s' = Some els \<and> history s' = [els] \<and> historyIndex s' = 0
           \<and> undo s' = s' \<and> redo s' = s'"
proof -
  from assms obtain st where st: "loadSceneFromLocalStorage ls name = Some st"
    and s': "s' = (installScene st s)\<lparr>sceneName := name, sceneModified := False\<rparr>"
    by (auto simp: loadScene_def split: option.splits)
  from st obtain d where "deserializeScene d = Inr st"
    by (auto simp: loadSceneFromLocalStorage_def split: option.splits stored.splits sum.splits)
  then obtain els where els: "ss_elements st = Some els"
    using deserializeScene_elements by blast
  show ?thesis
    using st els by (simp add: s' installScene_def orEmpty_def undo_def redo_def)
qed

lemma importScene_True:
  assumes "importScene f s = (True, s')"
  shows "\<exists>st els. importSceneFromJSON f = Inr st \<and> ss_elements st = Some els
           \<and> elements s' = Some els \<and> history s' = [els] \<and> historyIndex s' = 0
           \<and> undo s' = s' \<and> redo s' = s'"
proof -
  from assms obtain st where st: "importSceneFromJSON f = Inr st"
    and s': "s' = (installScene st s)
                    \<lparr>sceneName := (let n = stripExtension (fileName f)
                                   in if n = [] then ''Imported Scene'' else n),
                      sceneModified := True\<rparr>"
    by (auto simp: importScene_def split: sum.splits)
  from st obtain d where "deserializeScene d = Inr st"
    by (auto simp: importSceneFromJSON_def split: option.splits stored.splits)
  then obtain els where els: "ss_elements st = Some els"
    using deserializeScene_elements by blast
  show ?thesis
    using st els by (simp add: s' installScene_def orEmpty_def undo_def redo_def)
qed

text \<open>
  C10. After a successful \<open>loadScene\<close> and after a successful \<open>importScene\<close> the history is
  the single entry that holds the loaded collection, the cursor is 0, and \<open>undo\<close> and \<open>redo\<close>
  change nothing.
\<close>

theorem loadScene_importScene_reset_history:
  "(loadScene ls name s = (True, s1) \<longrightarrow>
      (\<exists>st els. loadSceneFromLocalStorage ls name = Some st \<and> ss_elements st = Some els
         \<and> elements s1 = Some els \<and> history s1 = [els] \<and> historyIndex s1 = 0
         \<and> undo s1 = s1 \<and> redo s1 = s1))
   \<and> (importScene f s = (True, s2) \<longrightarrow>
      (\<exists>st els. importSceneFromJSON f = Inr st \<and> ss_elements st = Some els
         \<and> elements s2 = Some els \<and> history s2 = [els] \<and> historyIndex s2 = 0
         \<and> undo s2 = s2 \<and> redo s2 = s2))"
  using loadScene_True importScene_True by blast

theorem loadScene_importScene_reset_history_witness:
  "loadScene exampleStorage ''A'' editedScene =
     (True, editedScene\<lparr>elements := Some [treeAt ''41'' 2 3],
                         gridSize := JObj [(''width'', JNum 12), (''height'', JNum 8)],
                         history := [[treeAt ''41'' 2 3]], historyIndex := 0,
                         sceneName := ''A'', sceneModified := False\<rparr>)
   \<and> importScene \<lparr>fileName = ''town.json'', fileText = Some (Json savedBlob)\<rparr> editedScene =
     (True, editedScene\<lparr>elements := Some [treeAt ''41'' 2 3],
                         gridSize := JObj [(''width'', JNum 12), (''height'', JNum 8)],
                         history := [[treeAt ''41'' 2 3]], historyIndex := 0,
                         sceneName := ''town'', sceneModified := True\<rparr>)
   \<and> undo (snd (loadScene exampleStorage ''A'' editedScene))
       = snd (loadScene exampleStorage ''A'' editedScene)
   \<and> redo (snd (importScene \<lparr>fileName = ''town.json'', fileText = Some (Json savedBlob)\<rparr>
                  editedScene))
       = snd (importScene \<lparr>fileName = ''town.json'', fileText = Some (Json savedBlob)\<rparr>
                  editedScene)"
proof -
  let ?f = "\<lparr>fileName = ''town.json'', fileText = Some (Json savedBlob)\<rparr>"
  have l: "loadScene exampleStorage ''A'' editedScene =
     (True, editedScene\<lparr>elements := Some [treeAt ''41'' 2 3],
                         gridSize := JObj [(''width'', JNum 12), (''height'', JNum 8)],
                         history := [[treeAt ''41'' 2 3]], historyIndex := 0,
                         sceneName := ''A'', sceneModified := False\<rparr>)"
    by (simp add: load_eval)
  have i: "importScene ?f editedScene =
     (True, editedScene\<lparr>elements := Some [treeAt ''41'' 2 3],
                         gridSize := JObj [(''width'', JNum 12), (''height'', JNum 8)],
                         history := [[treeAt ''41'' 2 3]], historyIndex := 0,
                         sceneName := ''town'', sceneModified := True\<rparr>)"
    by (simp add: load_eval)
  have l': "loadScene exampleStorage ''A'' editedScene
              = (True, snd (loadScene exampleStorage ''A'' editedScene))"
    by (simp add: l)
  have i': "importScene ?f editedScene = (True, snd (importScene ?f editedScene))"
    by (simp add: i)
  from loadScene_importScene_reset_history
         [of exampleStorage "''A''" editedScene "snd (loadScene exampleStorage ''A'' editedScene)"
             ?f "snd (importScene ?f editedScene)"]
    l' i'
  have "undo (snd (loadScene exampleStorage ''A'' editedScene))
          = snd (loadScene exampleStorage ''A'' editedScene)
        \<and> redo (snd (importScene ?f editedScene)) = snd (importScene ?f editedScene)"
    by blast
  with l i show ?thesis by simp
qed

section \<open>Properties of the element operations\<close>

subsection \<open>Operations on an id that no element has\<close>

text \<open>
  C5, as the code has it. \<open>updateElement\<close> and \<open>removeElement\<close> with an id that no element
  has raise no error and leave the contents of the element collection as they are, but
  they are no no-ops: each records a history entry that holds the unchanged collection,
  advances the cursor by one and marks the scene modified; \<open>removeElement\<close> also clears the
  selection when the selected id is the given one.
\<close>

theorem missing_id_records_history:
  assumes "elements s = Some els" and "list_all (\<lambda>e. \<not> hasId i e) els"
  shows "(\<exists>s'. updateElement i updates s = Inr s' \<and> elements s' = Some els
            \<and> last (history s') = els \<and> historyIndex s' = historyIndex s + 1
            \<and> sceneModified s' \<and> selectedElementId s' = selectedElementId s
            \<and> sceneName s' = sceneName s \<and> gridSize s' = gridSize s \<and> tileSize s' = tileSize s)
       \<and> (\<exists>s'. removeElement h i s = Inr s' \<and> elements s' = Some els
            \<and> last (history s') = els \<and> historyIndex s' = historyIndex s + 1
            \<and> sceneModified s'
            \<and> selectedElementId s'
                = (if selectedElementId s = Some i then None else selectedElementId s)
            \<and> sceneName s' = sceneName s \<and> gridSize s' = gridSize s \<and> tileSize s' = tileSize s)"
  using assms
  by (simp add: updateElement_def updateElementWith_def removeElement_def addToHistory_def
        not_hasId_map not_hasId_filter Let_def)

theorem missing_id_records_history_witness:
  "elements loadedScene = Some [treeAt ''41'' 2 3]
   \<and> list_all (\<lambda>e. \<not> hasId ''99'' e) [treeAt ''41'' 2 3]
   \<and> (\<exists>s'. updateElement ''99'' (JObj [(''rotation'', JNum 90)]) loadedScene = Inr s'
          \<and> elements s' = Some [treeAt ''41'' 2 3] \<and> historyIndex s' = 1 \<and> sceneModified s')
   \<and> (\<exists>s'. removeElement (- 1) ''99'' loadedScene = Inr s'
          \<and> elements s' = Some [treeAt ''41'' 2 3] \<and> historyIndex s' = 1 \<and> sceneModified s')"
proof -
  have e: "elements loadedScene = Some [treeAt ''41'' 2 3]"
    and x: "historyIndex loadedScene = 0"
    by (simp_all add: loadedScene_eq)
  have n: "list_all (\<lambda>e. \<not> hasId ''99'' e) [treeAt ''41'' 2 3]"
    by (simp add: hasId_def treeAt_def)
  from missing_id_records_history
         [OF e n, of "JObj [(''rotation'', JNum 90)]" "- 1"] e n x
  show ?thesis by auto
qed

text \<open>
  The claim as stated fails: on the scene loaded from the store, whose only element has
  the id \<open>41\<close>, both calls with the id \<open>99\<close> move the cursor from 0 to 1 and set the
  modified flag.
\<close>

theorem missing_id_noop_counterexample:
  "elements loadedScene = Some [treeAt ''41'' 2 3]
   \<and> \<not> hasId ''99'' (treeAt ''41'' 2 3)
   \<and> updateElement ''99'' (JObj [(''rotation'', JNum 90)]) loadedScene
       = Inr (loadedScene\<lparr>historyIndex := 1, sceneModified := True\<rparr>)
   \<and> removeElement (- 1) ''99'' loadedScene
       = Inr (loadedScene\<lparr>historyIndex := 1, sceneModified := True\<rparr>)
   \<and> loadedScene\<lparr>historyIndex := 1, sceneModified := True\<rparr> \<noteq> loadedScene"
  by (simp add: loadedScene_eq scene_eval)

subsection \<open>Duplication\<close>




subsection \<open>Identifiers\<close>

text \<open>
  C3, as the code has it. The id that \<open>addElement\<close> assigns to an element passed without
  an \<open>id\<close> property of its own, and the id that \<open>duplicateElement\<close> assigns to a clone, is
  the decimal rendering of the clock reading at the call; no id is compared with the ids
  of live or earlier elements. Two elements added one after the other have different ids
  exactly when the two clock readings differ.
\<close>

theorem ids_are_clock_readings:
  assumes "elements s = Some els"
    and "map_of (ownProps e1) ''id'' = None" and "map_of (ownProps e2) ''id'' = None"
  shows "(\<exists>s1 s2 a b. addElement now1 e1 s = Inr s1 \<and> addElement now2 e2 s1 = Inr s2
           \<and> elements s2 = Some (els @ [a, b])
           \<and> getProp (JObj a) ''id'' = JStr (toString now1)
           \<and> getProp (JObj b) ''id'' = JStr (toString now2)
           \<and> ((getProp (JObj a) ''id'' = getProp (JObj b) ''id'') = (now1 = now2)))
       \<and> (find (hasId i) els = Some el \<and> getProp (JObj el) ''position'' = JObj pos
            \<and> getProp (JObj pos) ''x'' = JNum x0 \<and> getProp (JObj pos) ''y'' = JNum y0 \<longrightarrow>
           (\<exists>clone s'. duplicateElement h now i s = Inr (JUndefined, s')
              \<and> elements s' = Some (els @ [clone])
              \<and> getProp (JObj clone) ''id'' = JStr (toString now)))"
proof (intro conjI impI)
  from addElementWith_id [OF assms(1) assms(2), of "- 1" now1]
  obtain a where a: "addElement now1 e1 s =
            Inr ((addToHistory (- 1) (els @ [a]) s)
                   \<lparr>elements := Some (els @ [a]), sceneModified := True\<rparr>)"
    and ai: "getProp (JObj a) ''id'' = JStr (toString now1)"
    by (auto simp: addElement_def)
  let ?s1 = "(addToHistory (- 1) (els @ [a]) s)
               \<lparr>elements := Some (els @ [a]), sceneModified := True\<rparr>"
  have e1: "elements ?s1 = Some (els @ [a])" by simp
  from addElementWith_id [OF e1 assms(3), of "- 1" now2]
  obtain b where b: "addElement now2 e2 ?s1 =
            Inr ((addToHistory (- 1) ((els @ [a]) @ [b]) ?s1)
                   \<lparr>elements := Some ((els @ [a]) @ [b]), sceneModified := True\<rparr>)"
    and bi: "getProp (JObj b) ''id'' = JStr (toString now2)"
    by (auto simp: addElement_def)
  let ?s2 = "(addToHistory (- 1) ((els @ [a]) @ [b]) ?s1)
               \<lparr>elements := Some ((els @ [a]) @ [b]), sceneModified := True\<rparr>"
  have e2: "elements ?s2 = Some (els @ [a, b])" by simp
  have "(getProp (JObj a) ''id'' = getProp (JObj b) ''id'') = (toString now1 = toString now2)"
    by (simp only: ai bi jsval.inject)
  also have "\<dots> = (now1 = now2)"
    using toString_inj [of now1 now2] by blast
  finally have "(getProp (JObj a) ''id'' = getProp (JObj b) ''id'') = (now1 = now2)" .
  with a b e2 ai bi
  show "\<exists>s1 s2 a b. addElement now1 e1 s = Inr s1 \<and> addElement now2 e2 s1 = Inr s2
           \<and> elements s2 = Some (els @ [a, b])
           \<and> getProp (JObj a) ''id'' = JStr (toString now1)
           \<and> getProp (JObj b) ''id'' = JStr (toString now2)
           \<and> ((getProp (JObj a) ''id'' = getProp (JObj b) ''id'') = (now1 = now2))"
    by blast
next
  assume f: "find (hasId i) els = Some el \<and> getProp (JObj el) ''position'' = JObj pos
            \<and> getProp (JObj pos) ''x'' = JNum x0 \<and> getProp (JObj pos) ''y'' = JNum y0"
  from f duplicateElement_found [OF assms(1), of i el pos x0 y0 h now]
  obtain clone where c: "duplicateElement h now i s =
            Inr (JUndefined, (addToHistory h (els @ [clone]) s)
                   \<lparr>elements := Some (els @ [clone]), sceneModified := True,
                     selectedElementId := Some (toString now)\<rparr>)"
    and ci: "getProp (JObj clone) ''id'' = JStr (toString now)"
    by blast
  let ?s' = "(addToHistory h (els @ [clone]) s)
                   \<lparr>elements := Some (els @ [clone]), sceneModified := True,
                     selectedElementId := Some (toString now)\<rparr>"
  have "elements ?s' = Some (els @ [clone])" by simp
  with c ci
  show "\<exists>clone s'. duplicateElement h now i s = Inr (JUndefined, s')
              \<and> elements s' = Some (els @ [clone])
              \<and> getProp (JObj clone) ''id'' = JStr (toString now)"
    by blast
qed

theorem ids_are_clock_readings_witness:
  "elements mountedScene = Some []
   \<and> map_of (ownProps paletteTree) ''id'' = None
   \<and> (\<exists>s1 s2 a b. addElement 1000 paletteTree mountedScene = Inr s1
          \<and> addElement 1001 paletteTree s1 = Inr s2
          \<and> elements s2 = Some [a, b]
          \<and> getProp (JObj a) ''id'' = JStr ''1000''
          \<and> getProp (JObj b) ''id'' = JStr ''1001''
          \<and> getProp (JObj a) ''id'' \<noteq> getProp (JObj b) ''id'')"
proof -
  have e: "elements mountedScene = Some []"
    by (simp add: mountedScene_def initHistory_def initialScene_def)
  have n: "map_of (ownProps paletteTree) ''id'' = None"
    by (simp add: paletteTree_def)
  have t: "toString 1000 = ''1000''" "toString 1001 = ''1001''"
    by (simp_all add: toString_def natToString.simps digitChar_def)
  from ids_are_clock_readings [OF e n n, of 1000 1001]
  have "\<exists>s1 s2 a b. addElement 1000 paletteTree mountedScene = Inr s1
          \<and> addElement 1001 paletteTree s1 = Inr s2
          \<and> elements s2 = Some ([] @ [a, b])
          \<and> getProp (JObj a) ''id'' = JStr (toString 1000)
          \<and> getProp (JObj b) ''id'' = JStr (toString 1001)
          \<and> ((getProp (JObj a) ''id'' = getProp (JObj b) ''id'') = ((1000::int) = 1001))"
    by blast
  then obtain s1 s2 a b where
    a1: "addElement 1000 paletteTree mountedScene = Inr s1"
    and a2: "addElement 1001 paletteTree s1 = Inr s2"
    and el: "elements s2 = Some ([] @ [a, b])"
    and ai: "getProp (JObj a) ''id'' = JStr (toString 1000)"
    and bi: "getProp (JObj b) ''id'' = JStr (toString 1001)"
    by blast
  have el': "elements s2 = Some [a, b]"
    using el by simp
  have ai': "getProp (JObj a) ''id'' = JStr ''1000''"
    unfolding ai t by (rule refl)
  have bi': "getProp (JObj b) ''id'' = JStr ''1001''"
    unfolding bi t by (rule refl)
  have ne: "getProp (JObj a) ''id'' \<noteq> getProp (JObj b) ''id''"
    unfolding ai' bi' by simp
  from a1 a2 el' ai' bi' ne
  have "\<exists>s1 s2 a b. addElement 1000 paletteTree mountedScene = Inr s1
          \<and> addElement 1001 paletteTree s1 = Inr s2
          \<and> elements s2 = Some [a, b]
          \<and> getProp (JObj a) ''id'' = JStr ''1000''
          \<and> getProp (JObj b) ''id'' = JStr ''1001''
          \<and> getProp (JObj a) ''id'' \<noteq> getProp (JObj b) ''id''"
    by blast
  with e n show ?thesis by blast
qed

text \<open>
  The claim as stated fails: two elements added at the same clock reading have the same
  id.
\<close>

theorem addElement_distinct_ids_counterexample:
  "map_sum id elements
     (run [addElement 1000 paletteTree, addElement 1000 paletteTree] mountedScene)
     = Inr (Some [treeAt ''1000'' 5 5, treeAt ''1000'' 5 5])
   \<and> getProp (JObj (treeAt ''1000'' 5 5)) ''id'' = JStr ''1000''"
  by (simp add: scene_eval)

section \<open>Properties of the named-slot store\<close>

lemma sceneKey_indexKey: "sceneKey n \<noteq> indexKey"
  by (simp add: sceneKey_def indexKey_def)

lemma sceneKey_inj: "(sceneKey a = sceneKey b) = (a = b)"
  by (simp add: sceneKey_def)

lemma member_Inr: "member item k = Inr v \<Longrightarrow> v = getProp item k"
  by (auto simp: member_def split: if_splits)

lemma findIndexByName_Some:
  "findIndexByName name items = Inr (Some k) \<Longrightarrow> k < length items \<and> namedBy name (items ! k)"
proof (induction items arbitrary: k)
  case Nil
  then show ?case by simp
next
  case (Cons item items)
  then show ?case
    by (auto simp: namedBy_def nth_Cons' dest!: member_Inr split: sum.splits if_splits option.splits)
qed

lemma findIndexByName_None:
  "findIndexByName name items = Inr None \<Longrightarrow> \<not> list_ex (namedBy name) items"
proof (induction items)
  case Nil
  then show ?case by simp
next
  case (Cons item items)
  then show ?case
    by (auto simp: namedBy_def dest!: member_Inr split: sum.splits if_splits option.splits)
qed

lemma filterOutName_Inr:
  "filterOutName name items = Inr rest \<Longrightarrow> rest = filter (\<lambda>item. \<not> namedBy name item) items"
proof (induction items arbitrary: rest)
  case Nil
  then show ?case by simp
next
  case (Cons item items)
  then show ?case
    by (auto simp: namedBy_def dest!: member_Inr split: sum.splits if_splits)
qed

lemma namedBy_other: "namedBy name item \<Longrightarrow> n \<noteq> name \<Longrightarrow> \<not> namedBy n item"
  by (simp add: namedBy_def)

lemma list_ex_update_other:
  assumes "k < length items" and "\<not> P (items ! k)" and "\<not> P v"
  shows "list_ex P (items[k := v]) = list_ex P items"
  using assms
proof (induction items arbitrary: k)
  case Nil
  then show ?case by simp
next
  case (Cons a items)
  then show ?case by (cases k) auto
qed

lemma list_ex_update_same:
  assumes "k < length items" and "P v"
  shows "list_ex P (items[k := v])"
  using assms by (auto simp: list_ex_iff set_update_memI)

lemma namedBy_sceneInfo: "namedBy n (JObj [(''name'', JStr name), (''timestamp'', JStr ts), (''preview'', JNull)]) = (n = name)"
  by (auto simp: namedBy_def)

lemma saveSceneToLocalStorage_True:
  assumes "saveSceneToLocalStorage fits t1 t2 name st ls = (True, ls')"
  shows "\<exists>items items' blob. parseItemOrEmpty ls indexKey = Inr (JArr items)
           \<and> list_ex (namedBy name) items'
           \<and> (\<forall>n. n \<noteq> name \<longrightarrow> list_ex (namedBy n) items' = list_ex (namedBy n) items)
           \<and> ls' = (ls(indexKey \<mapsto> Json (JArr items')))(sceneKey name \<mapsto> Json blob)"
proof -
  from assms obtain blob where "serializeScene t1 st = Inr blob"
    by (auto simp: saveSceneToLocalStorage_def split: sum.splits)
  with assms obtain items where items: "parseItemOrEmpty ls indexKey = Inr (JArr items)"
    by (auto simp: saveSceneToLocalStorage_def split: sum.splits jsval.splits)
  let ?info = "JObj [(''name'', JStr name), (''timestamp'', JStr t2), (''preview'', JNull)]"
  from assms \<open>serializeScene t1 st = Inr blob\<close> items
  obtain ex where ex: "findIndexByName name items = Inr ex"
    by (auto simp: saveSceneToLocalStorage_def split: sum.splits)
  let ?items' = "case ex of Some k \<Rightarrow> items[k := ?info] | None \<Rightarrow> items @ [?info]"
  have ls': "ls' = (ls(indexKey \<mapsto> Json (JArr ?items')))(sceneKey name \<mapsto> Json blob)"
    using assms \<open>serializeScene t1 st = Inr blob\<close> items ex
    by (auto simp: saveSceneToLocalStorage_def setItem_def stringify_def Let_def split: sum.splits if_splits)
  have a: "list_ex (namedBy name) ?items'"
  proof (cases ex)
    case None
    then show ?thesis by (simp add: namedBy_sceneInfo)
  next
    case (Some k)
    then show ?thesis using findIndexByName_Some [of name items k] ex
      by (simp add: list_ex_update_same namedBy_sceneInfo)
  qed
  have b: "\<forall>n. n \<noteq> name \<longrightarrow> list_ex (namedBy n) ?items' = list_ex (namedBy n) items"
  proof (cases ex)
    case None
    then show ?thesis by (simp add: namedBy_sceneInfo)
  next
    case (Some k)
    then show ?thesis using findIndexByName_Some [of name items k] ex
      by (auto simp: list_ex_update_other namedBy_sceneInfo namedBy_other)
  qed
  from items a b ls' show ?thesis by blast
qed

lemma inIndex_upd:
  "inIndex (ls(indexKey \<mapsto> Json (JArr items))) n = list_ex (namedBy n) items"
  by (simp add: inIndex_def parseItemOrEmpty_def)

lemma inIndex_other_key: "k \<noteq> indexKey \<Longrightarrow> inIndex (ls(k := v)) n = inIndex ls n"
  by (simp add: inIndex_def parseItemOrEmpty_def)

lemma inIndex_parsed: "parseItemOrEmpty ls indexKey = Inr (JArr items) \<Longrightarrow> inIndex ls n = list_ex (namedBy n) items"
  by (simp add: inIndex_def)

lemma saveSceneToLocalStorage_True_sync:
  assumes "saveSceneToLocalStorage fits t1 t2 name st ls = (True, ls')"
  shows "hasBlob ls' name \<and> inIndex ls' name
       \<and> (\<forall>n. n \<noteq> name \<longrightarrow> hasBlob ls' n = hasBlob ls n \<and> inIndex ls' n = inIndex ls n)"
proof -
  from saveSceneToLocalStorage_True [OF assms] obtain items items' blob where
    p: "parseItemOrEmpty ls indexKey = Inr (JArr items)"
    and a: "list_ex (namedBy name) items'"
    and b: "\<forall>n. n \<noteq> name \<longrightarrow> list_ex (namedBy n) items' = list_ex (namedBy n) items"
    and ls': "ls' = (ls(indexKey \<mapsto> Json (JArr items')))(sceneKey name \<mapsto> Json blob)"
    by blast
  have k: "sceneKey name \<noteq> indexKey" by (rule sceneKey_indexKey)
  have i: "\<And>n. inIndex ls' n = list_ex (namedBy n) items'"
    unfolding ls' using k by (simp add: inIndex_other_key inIndex_upd)
  have h: "hasBlob ls' name" by (simp add: ls' hasBlob_def)
  have o: "\<And>n. n \<noteq> name \<Longrightarrow> hasBlob ls' n = hasBlob ls n"
    by (simp add: ls' hasBlob_def sceneKey_inj sceneKey_indexKey)
  show ?thesis using h i a b o inIndex_parsed [OF p] by simp
qed

lemma deleteScene_True:
  assumes "deleteScene fits name ls = (True, ls')"
  shows "\<exists>items. parseItemOrEmpty ls indexKey = Inr (JArr items)
           \<and> ls' = (ls(indexKey \<mapsto> Json (JArr (filter (\<lambda>item. \<not> namedBy name item) items))))(sceneKey name := None)"
proof -
  from assms obtain items where items: "parseItemOrEmpty ls indexKey = Inr (JArr items)"
    by (auto simp: deleteScene_def split: sum.splits jsval.splits)
  with assms obtain rest where rest: "filterOutName name items = Inr rest"
    by (auto simp: deleteScene_def split: sum.splits)
  have "ls' = (ls(indexKey \<mapsto> Json (JArr rest)))(sceneKey name := None)"
    using assms items rest
    by (auto simp: deleteScene_def setItem_def stringify_def removeItem_def split: sum.splits if_splits)
  with items filterOutName_Inr [OF rest] show ?thesis by blast
qed

lemma list_ex_filter_other:
  "n \<noteq> name \<Longrightarrow> list_ex (namedBy n) (filter (\<lambda>item. \<not> namedBy name item) items) = list_ex (namedBy n) items"
  by (induction items) (auto simp: namedBy_def)

lemma list_ex_filter_same:
  "\<not> list_ex (namedBy name) (filter (\<lambda>item. \<not> namedBy name item) items)"
  by (induction items) auto

lemma deleteScene_True_sync:
  assumes "deleteScene fits name ls = (True, ls')"
  shows "\<not> hasBlob ls' name \<and> \<not> inIndex ls' name
       \<and> (\<forall>n. n \<noteq> name \<longrightarrow> hasBlob ls' n = hasBlob ls n \<and> inIndex ls' n = inIndex ls n)"
proof -
  from deleteScene_True [OF assms] obtain items where
    p: "parseItemOrEmpty ls indexKey = Inr (JArr items)"
    and ls': "ls' = (ls(indexKey \<mapsto> Json (JArr (filter (\<lambda>item. \<not> namedBy name item) items))))(sceneKey name := None)"
    by blast
  have k: "sceneKey name \<noteq> indexKey" by (rule sceneKey_indexKey)
  have i: "\<And>n. inIndex ls' n = list_ex (namedBy n) (filter (\<lambda>item. \<not> namedBy name item) items)"
    unfolding ls' using k by (simp add: inIndex_other_key inIndex_upd)
  have h: "\<not> hasBlob ls' name" by (simp add: ls' hasBlob_def)
  have o: "\<And>n. n \<noteq> name \<Longrightarrow> hasBlob ls' n = hasBlob ls n"
    by (simp add: ls' hasBlob_def sceneKey_inj sceneKey_indexKey)
  show ?thesis using h i o inIndex_parsed [OF p] list_ex_filter_other list_ex_filter_same by simp
qed

lemma saveSceneToLocalStorage_False:
  assumes "saveSceneToLocalStorage fits t1 t2 name st ls = (False, ls')"
  shows "ls' (sceneKey n) = ls (sceneKey n)"
  using assms
  by (auto simp: saveSceneToLocalStorage_def setItem_def Let_def sceneKey_indexKey
      split: sum.splits jsval.splits if_splits)

lemma deleteScene_False:
  assumes "deleteScene fits name ls = (False, ls')"
  shows "ls' = ls"
  using assms
  by (auto simp: deleteScene_def setItem_def split: sum.splits jsval.splits if_splits)

text \<open>
  C9, as the code has it. A save-by-name that reports success leaves a blob under the name
  and an index entry with the name; a delete-by-name that reports success leaves neither;
  both leave every other name as it was, so they keep the store and the index in
  agreement. A delete that reports failure changes nothing. A save that reports failure
  stores no blob, but it may already have written the index.
\<close>

theorem store_index_agree_on_success:
  "(saveSceneToLocalStorage fits t1 t2 name st ls = (True, ls1) \<longrightarrow>
      hasBlob ls1 name \<and> inIndex ls1 name
      \<and> (\<forall>n. n \<noteq> name \<longrightarrow> hasBlob ls1 n = hasBlob ls n \<and> inIndex ls1 n = inIndex ls n))
   \<and> (deleteScene fits name ls = (True, ls2) \<longrightarrow>
      \<not> hasBlob ls2 name \<and> \<not> inIndex ls2 name
      \<and> (\<forall>n. n \<noteq> name \<longrightarrow> hasBlob ls2 n = hasBlob ls n \<and> inIndex ls2 n = inIndex ls n))
   \<and> (deleteScene fits name ls = (False, ls3) \<longrightarrow> ls3 = ls)
   \<and> (saveSceneToLocalStorage fits t1 t2 name st ls = (False, ls4) \<longrightarrow>
      (\<forall>n. hasBlob ls4 n = hasBlob ls n))"
  using saveSceneToLocalStorage_True_sync [of fits t1 t2 name st ls ls1]
    deleteScene_True_sync [of fits name ls ls2]
    deleteScene_False [of fits name ls ls3]
    saveSceneToLocalStorage_False [of fits t1 t2 name st ls ls4]
  by (simp add: hasBlob_def)

lemmas store_eval =
  hasBlob_def inIndex_def emptyStorage_def parseItemOrEmpty_def saveSceneToLocalStorage_def
  deleteScene_def serializeScene_def mountedState_def mountedScene_def initHistory_def
  initialScene_def setItem_def removeItem_def refuseBlobs_def acceptAll_def sceneKey_def
  indexKey_def stringify_def namedBy_def exampleStorage_def member_def Let_def

theorem store_index_agree_on_success_witness:
  "fst (saveSceneToLocalStorage acceptAll ''t1'' ''t2'' ''B'' mountedState exampleStorage)
   \<and> hasBlob (snd (saveSceneToLocalStorage acceptAll ''t1'' ''t2'' ''B'' mountedState exampleStorage)) ''B''
   \<and> inIndex (snd (saveSceneToLocalStorage acceptAll ''t1'' ''t2'' ''B'' mountedState exampleStorage)) ''B''
   \<and> hasBlob exampleStorage ''A'' \<and> inIndex exampleStorage ''A''
   \<and> fst (deleteScene acceptAll ''A'' exampleStorage)
   \<and> \<not> hasBlob (snd (deleteScene acceptAll ''A'' exampleStorage)) ''A''
   \<and> \<not> inIndex (snd (deleteScene acceptAll ''A'' exampleStorage)) ''A''"
proof -
  let ?sv = "saveSceneToLocalStorage acceptAll ''t1'' ''t2'' ''B'' mountedState exampleStorage"
  let ?dl = "deleteScene acceptAll ''A'' exampleStorage"
  have s: "fst ?sv" and d: "fst ?dl"
    by (simp_all add: store_eval)
  have s': "?sv = (True, snd ?sv)" using s by (cases ?sv) simp
  have d': "?dl = (True, snd ?dl)" using d by (cases ?dl) simp
  have before: "hasBlob exampleStorage ''A'' \<and> inIndex exampleStorage ''A''"
    by (simp add: store_eval)
  from store_index_agree_on_success
         [of acceptAll "''t1''" "''t2''" "''B''" mountedState exampleStorage "snd ?sv"] s'
  have a: "hasBlob (snd ?sv) ''B'' \<and> inIndex (snd ?sv) ''B''"
    by blast
  from store_index_agree_on_success
         [of acceptAll "''t1''" "''t2''" "''A''" mountedState exampleStorage _ "snd ?dl"] d'
  have b: "\<not> hasBlob (snd ?dl) ''A'' \<and> \<not> inIndex (snd ?dl) ''A''"
    by blast
  from s d before a b show ?thesis by blast
qed

text \<open>
  The claim as stated fails: when the browser accepts the write of the index and refuses
  the write of the blob, the save on the empty store reports failure and leaves an index
  entry \<open>A\<close> without a blob \<open>A\<close>.
\<close>

theorem store_index_agree_counterexample:
  "\<not> hasBlob emptyStorage ''A'' \<and> \<not> inIndex emptyStorage ''A''
   \<and> fst (saveSceneToLocalStorage refuseBlobs ''t1'' ''t2'' ''A'' mountedState emptyStorage) = False
   \<and> inIndex (snd (saveSceneToLocalStorage refuseBlobs ''t1'' ''t2'' ''A'' mountedState
                      emptyStorage)) ''A''
   \<and> \<not> hasBlob (snd (saveSceneToLocalStorage refuseBlobs ''t1'' ''t2'' ''A'' mountedState
                         emptyStorage)) ''A''"
  by (simp add: store_eval)

section \<open>The history under the callbacks as memoised\<close>

text \<open>
  C2 at its first step. On the mounted scene (history \<open>[[]]\<close>, cursor 0, no elements),
  \<open>addElement\<close> replaces the history by the single entry that holds the new collection,
  because its \<open>addToHistory\<close> slices the history at the \<open>historyIndex\<close> of the first render,
  and advances the cursor to 1. \<open>undo\<close> then moves the cursor to 0 and reads entry 0, which
  is the new collection: the element stays, the empty collection is not restored, and
  \<open>redo\<close> finds nothing to restore.
\<close>

theorem undo_after_first_addElement:
  "(let e = spreadInto [(''id'', JStr (toString now))] element;
        s1 = mountedScene\<lparr>elements := Some [e], history := [[e]], historyIndex := 1,
                           sceneModified := True\<rparr>
    in elements mountedScene = Some [] \<and> history mountedScene = [[]]
       \<and> historyIndex mountedScene = 0
       \<and> addElement now element mountedScene = Inr s1
       \<and> undo s1 = s1\<lparr>historyIndex := 0\<rparr>
       \<and> elements (undo s1) = Some [e]
       \<and> undo (undo s1) = undo s1
       \<and> redo (undo s1) = undo s1)"
  by (simp add: addElement_def addElementWith_def addToHistory_def undo_def redo_def
        mountedScene_def initHistory_def initialScene_def slice0_def index_def Let_def)

text \<open>
  C7 on the same callbacks. After two \<open>addElement\<close> calls the history is one entry and the
  cursor is 2; \<open>undo\<close> moves the cursor to 1 and reads entry 1, which does not exist, so
  the collection becomes \<open>undefined\<close> instead of the state after the first call. The next
  \<open>addElement\<close> throws a TypeError. When the next recorded mutation is \<open>clearScene\<close>, which
  does not read the collection, the \<open>redo\<close> after it changes nothing.
\<close>

theorem record_after_undo:
  "run [addElement 1000 paletteTree, addElement 1001 paletteTree, Inr \<circ> undo] mountedScene
     = Inr (mountedScene\<lparr>elements := None,
                          history := [[treeAt ''1000'' 5 5, treeAt ''1001'' 5 5]],
                          historyIndex := 1, sceneModified := True\<rparr>)
   \<and> run [addElement 1000 paletteTree, addElement 1001 paletteTree, Inr \<circ> undo,
           addElement 1002 paletteTree] mountedScene
     = Inl TypeError
   \<and> run [addElement 1000 paletteTree, addElement 1001 paletteTree, Inr \<circ> undo,
           Inr \<circ> clearScene, Inr \<circ> redo] mountedScene
     = Inr (mountedScene\<lparr>elements := Some [], history := [[]], historyIndex := 2,
                          sceneModified := True\<rparr>)"
  by (simp add: scene_eval)

text \<open>
  The same history through \<open>duplicateElement\<close>, whose dependency list names the collection:
  the \<open>addToHistory\<close> it calls is the one of the render that follows the last change of the
  collection and closes over the cursor of that render. After \<open>loadScene\<close> that cursor is 0.
  The new collection is appended to the history, \<open>undo\<close> restores the loaded collection
  and \<open>redo\<close> the collection with the clone.
\<close>

lemma undo_redo_after_duplicateElement:
  "map_sum id snd (duplicateElement 0 1000 ''41'' loadedScene)
     = Inr (loadedScene\<lparr>elements := Some [treeAt ''41'' 2 3, treeAt ''1000'' 3 4],
                         history := [[treeAt ''41'' 2 3],
                                     [treeAt ''41'' 2 3, treeAt ''1000'' 3 4]],
                         historyIndex := 1, sceneModified := True,
                         selectedElementId := Some ''1000''\<rparr>)
   \<and> map_sum id (elements \<circ> undo \<circ> snd) (duplicateElement 0 1000 ''41'' loadedScene)
       = Inr (Some [treeAt ''41'' 2 3])
   \<and> map_sum id (elements \<circ> redo \<circ> undo \<circ> snd) (duplicateElement 0 1000 ''41'' loadedScene)
       = Inr (Some [treeAt ''41'' 2 3, treeAt ''1000'' 3 4])"
  by (simp add: loadedScene_eq scene_eval)

text \<open>
  On that path a mutation recorded after an \<open>undo\<close> discards the undone state: two
  duplications, \<open>undo\<close>, a third duplication; the history is then the loaded collection,
  the state after the first and the state after the third duplication, and \<open>redo\<close> changes
  nothing.
\<close>

lemma record_after_undo_duplicateElement:
  "run [map_sum id snd \<circ> duplicateElement 0 1000 ''41'',
        map_sum id snd \<circ> duplicateElement 1 1001 ''41'',
        Inr \<circ> undo,
        map_sum id snd \<circ> duplicateElement 1 1002 ''41''] loadedScene
     = Inr (loadedScene\<lparr>elements := Some [treeAt ''41'' 2 3, treeAt ''1000'' 3 4,
                                            treeAt ''1002'' 3 4],
                         history := [[treeAt ''41'' 2 3],
                                     [treeAt ''41'' 2 3, treeAt ''1000'' 3 4],
                                     [treeAt ''41'' 2 3, treeAt ''1000'' 3 4,
                                      treeAt ''1002'' 3 4]],
                         historyIndex := 2, sceneModified := True,
                         selectedElementId := Some ''1002''\<rparr>)
   \<and> run [map_sum id snd \<circ> duplicateElement 0 1000 ''41'',
          map_sum id snd \<circ> duplicateElement 1 1001 ''41'',
          Inr \<circ> undo,
          map_sum id snd \<circ> duplicateElement 1 1002 ''41'',
          Inr \<circ> redo] loadedScene
     = run [map_sum id snd \<circ> duplicateElement 0 1000 ''41'',
            map_sum id snd \<circ> duplicateElement 1 1001 ''41'',
            Inr \<circ> undo,
            map_sum id snd \<circ> duplicateElement 1 1002 ''41''] loadedScene"
  by (simp add: loadedScene_eq scene_eval)

end
